theory Spec2Isabelle
  imports Complex_Main
begin

section \<open>Python strings and integers\<close>

text \<open>
  A string is a list of characters, and a character is a code point below 256. On these
  \<open>str.lower\<close> maps \<open>A..Z\<close> to \<open>a..z\<close> and the capital letters U+00C0 to U+00DE, the
  multiplication sign U+00D7 apart, to the letters 32 places further on; \<open>str.isspace\<close>
  holds for the ten ASCII whitespace characters, for U+0085 and for U+00A0.
\<close>

definition upper_chars :: string where
  "upper_chars =
     ''ABCDEFGHIJKLMNOPQRSTUVWXYZ''
       @ [CHR 0xC0, CHR 0xC1, CHR 0xC2, CHR 0xC3, CHR 0xC4, CHR 0xC5, CHR 0xC6, CHR 0xC7,
          CHR 0xC8, CHR 0xC9, CHR 0xCA, CHR 0xCB, CHR 0xCC, CHR 0xCD, CHR 0xCE, CHR 0xCF,
          CHR 0xD0, CHR 0xD1, CHR 0xD2, CHR 0xD3, CHR 0xD4, CHR 0xD5, CHR 0xD6, CHR 0xD8,
          CHR 0xD9, CHR 0xDA, CHR 0xDB, CHR 0xDC, CHR 0xDD, CHR 0xDE]"

definition lower_chars :: string where
  "lower_chars =
     ''abcdefghijklmnopqrstuvwxyz''
       @ [CHR 0xE0, CHR 0xE1, CHR 0xE2, CHR 0xE3, CHR 0xE4, CHR 0xE5, CHR 0xE6, CHR 0xE7,
          CHR 0xE8, CHR 0xE9, CHR 0xEA, CHR 0xEB, CHR 0xEC, CHR 0xED, CHR 0xEE, CHR 0xEF,
          CHR 0xF0, CHR 0xF1, CHR 0xF2, CHR 0xF3, CHR 0xF4, CHR 0xF5, CHR 0xF6, CHR 0xF8,
          CHR 0xF9, CHR 0xFA, CHR 0xFB, CHR 0xFC, CHR 0xFD, CHR 0xFE]"

definition lower_char :: "char \<Rightarrow> char" where
  "lower_char c = (case map_of (zip upper_chars lower_chars) c of Some d \<Rightarrow> d | None \<Rightarrow> c)"

definition lower :: "string \<Rightarrow> string" where
  "lower s = map lower_char s"

definition startswith :: "string \<Rightarrow> string \<Rightarrow> bool" where
  "startswith s p = (take (length p) s = p)"

text \<open>\<open>contains s sub\<close> is Python's \<open>sub in s\<close>.\<close>

fun contains :: "string \<Rightarrow> string \<Rightarrow> bool" where
  "contains [] sub = (sub = [])"
| "contains (c # cs) sub = (startswith (c # cs) sub \<or> contains cs sub)"

definition is_space :: "char \<Rightarrow> bool" where
  "is_space c = (c \<in> set [CHR 0x09, CHR 0x0A, CHR 0x0B, CHR 0x0C, CHR 0x0D,
                            CHR 0x1C, CHR 0x1D, CHR 0x1E, CHR 0x1F, CHR 0x20,
                            CHR 0x85, CHR 0xA0])"

definition strip :: "string \<Rightarrow> string" where
  "strip s = rev (dropWhile is_space (rev (dropWhile is_space s)))"

text \<open>\<open>rstrip_slash s\<close> is \<open>s.rstrip("/")\<close>.\<close>

definition rstrip_slash :: "string \<Rightarrow> string" where
  "rstrip_slash s = rev (dropWhile (\<lambda>c. c = CHR ''/'') (rev s))"

definition digit_char :: "nat \<Rightarrow> char" where
  "digit_char d = ''0123456789'' ! d"

definition digit_val :: "char \<Rightarrow> nat option" where
  "digit_val c = map_of (zip ''0123456789'' [0, 1, 2, 3, 4, 5, 6, 7, 8, 9]) c"

text \<open>\<open>str_int\<close> is \<open>str\<close> on an \<open>int\<close>: decimal digits, with a leading minus sign below zero.\<close>

fun str_nat :: "nat \<Rightarrow> string" where
  "str_nat n = (if n < 10 then [digit_char n] else str_nat (n div 10) @ [digit_char (n mod 10)])"

declare str_nat.simps [simp del]

definition str_int :: "int \<Rightarrow> string" where
  "str_int i = (if i < 0 then CHR ''-'' # str_nat (nat (- i)) else str_nat (nat i))"

text \<open>
  \<open>py_int\<close> is \<open>int\<close> on a \<open>str\<close>, with \<open>None\<close> for \<open>ValueError\<close>: surrounding whitespace is
  dropped, one sign is allowed, then decimal digits follow, where a single underscore may
  stand between two digits.
\<close>

fun parse_digits :: "nat \<Rightarrow> string \<Rightarrow> nat option" where
  "parse_digits acc [] = Some acc"
| "parse_digits acc (c # cs) =
     (if c = CHR ''_'' then
        (case cs of
           [] \<Rightarrow> None
         | d # ds \<Rightarrow>
             (case digit_val d of None \<Rightarrow> None | Some v \<Rightarrow> parse_digits (acc * 10 + v) ds))
      else (case digit_val c of None \<Rightarrow> None | Some v \<Rightarrow> parse_digits (acc * 10 + v) cs))"

definition parse_nat :: "string \<Rightarrow> nat option" where
  "parse_nat s =
     (case s of
        [] \<Rightarrow> None
      | c # cs \<Rightarrow> (case digit_val c of None \<Rightarrow> None | Some v \<Rightarrow> parse_digits v cs))"

definition py_int :: "string \<Rightarrow> int option" where
  "py_int s =
     (case strip s of
        [] \<Rightarrow> None
      | c # cs \<Rightarrow>
          if c = CHR ''-'' then map_option (\<lambda>n. - int n) (parse_nat cs)
          else if c = CHR ''+'' then map_option int (parse_nat cs)
          else map_option int (parse_nat (c # cs)))"

definition digit_step :: "nat \<Rightarrow> char \<Rightarrow> nat" where
  "digit_step a c = a * 10 + the (digit_val c)"

text \<open>\<open>dict_get d k dflt\<close> is \<open>d.get(k, dflt)\<close> on a dictionary literal.\<close>

definition dict_get :: "('k \<times> 'v) list \<Rightarrow> 'k \<Rightarrow> 'v \<Rightarrow> 'v" where
  "dict_get d k dflt = (case map_of d k of Some v \<Rightarrow> v | None \<Rightarrow> dflt)"

text \<open>\<open>slice_to xs n\<close> is \<open>xs[:n]\<close>; a negative \<open>n\<close> counts from the end.\<close>

definition slice_to :: "'a list \<Rightarrow> int \<Rightarrow> 'a list" where
  "slice_to xs n = (if n < 0 then take (nat (int (length xs) + n)) xs else take (nat n) xs)"

text \<open>Paths are strings; \<open>path_join p q\<close> is \<open>p / q\<close> for a relative component \<open>q\<close>.\<close>

definition path_join :: "string \<Rightarrow> string \<Rightarrow> string" where
  "path_join p q = p @ ''/'' @ q"


section \<open>exceptions.py\<close>

text \<open>
  The three exception classes of the package, each with its message, and \<open>Builtin\<close> for an
  exception of another class that a library raises and the package does not catch: the name
  of the class and the message.
\<close>

datatype exn =
    BinaryNotFoundError string
  | ServerError string
  | APIError string
  | Builtin string string

text \<open>\<open>exn_str e\<close> is \<open>str(e)\<close>, the message the exception was built with.\<close>

fun exn_str :: "exn \<Rightarrow> string" where
  "exn_str (BinaryNotFoundError m) = m"
| "exn_str (ServerError m) = m"
| "exn_str (APIError m) = m"
| "exn_str (Builtin cls m) = m"


section \<open>binary.py: BinaryManager\<close>

record BinaryManager =
  version :: string
  binary_path :: "string option"

definition GITHUB_REPO :: string where
  "GITHUB_REPO = ''Faux16/sense-ai''"

definition BINARY_NAME :: string where
  "BINARY_NAME = ''sense''"

text \<open>
  What the manager reads from the machine it runs on: the strings of the \<open>platform\<close> module
  and \<open>sys.platform\<close>; which paths exist; what \<open>which sense\<close> answers (\<open>None\<close> when
  \<open>subprocess.run\<close> raises, else return code and standard output); the directory four levels
  above the module file; what \<open>get_cache_dir()\<close> does (the text of the \<open>OSError\<close> its \<open>mkdir\<close>
  raises, or the directory); what \<open>os.stat\<close> and \<open>os.chmod\<close> do for a path (\<open>None\<close> when the mode
  was set, else the text of the \<open>OSError\<close>); and what \<open>urlretrieve\<close> does for a URL and a target
  (\<open>None\<close> when the file was written, else the text of the exception).
\<close>

record host =
  platform_system :: string
  platform_machine :: string
  sys_platform :: string
  path_exists :: "string \<Rightarrow> bool"
  which_sense :: "(int \<times> string) option"
  project_root :: string
  cache_dir_result :: "string + string"
  chmod_error :: "string \<Rightarrow> string option"
  urlretrieve :: "string \<Rightarrow> string \<Rightarrow> string option"

definition get_platform_info :: "string \<Rightarrow> string \<Rightarrow> string \<times> string" where
  "get_platform_info system_name machine_name =
     (let system = lower system_name;
          machine = lower machine_name;
          os_name = dict_get [(''darwin'', ''darwin''), (''linux'', ''linux''),
                              (''windows'', ''windows'')] system system;
          arch = dict_get [(''x86_64'', ''amd64''), (''amd64'', ''amd64''),
                           (''arm64'', ''arm64''), (''aarch64'', ''arm64'')] machine machine
      in (os_name, arch))"

definition find_in_path :: "host \<Rightarrow> string option" where
  "find_in_path h =
     (case which_sense h of
        None \<Rightarrow> None
      | Some (returncode, out) \<Rightarrow>
          if returncode = 0 \<and> strip out \<noteq> [] then Some (strip out) else None)"

text \<open>\<open>make_executable\<close>: the text of the \<open>OSError\<close> raised, if any. Nothing is done on win32.\<close>

definition make_executable :: "host \<Rightarrow> string \<Rightarrow> string option" where
  "make_executable h path = (if sys_platform h \<noteq> ''win32'' then chmod_error h path else None)"

text \<open>
  \<open>download_binary\<close> returns the path or the exception it raises, and the lines it has
  printed. Only the failure of \<open>urlretrieve\<close> is turned into \<open>BinaryNotFoundError\<close> here.
\<close>

definition download_binary :: "BinaryManager \<Rightarrow> host \<Rightarrow> (exn + string) \<times> string list" where
  "download_binary bm h =
     (let (os_name, arch) = get_platform_info (platform_system h) (platform_machine h);
          version_tag =
            (if version bm = ''latest'' then ''v0.1.0''
             else if \<not> startswith (version bm) ''v'' then ''v'' @ version bm
             else version bm);
          binary_name =
            ''sense-'' @ os_name @ ''-'' @ arch @ (if os_name = ''windows'' then ''.exe'' else '''');
          download_url =
            ''https://github.com/'' @ GITHUB_REPO @ ''/releases/download/'' @ version_tag @ ''/''
              @ binary_name
      in case cache_dir_result h of
           Inl e \<Rightarrow> (Inl (Builtin ''OSError'' e), [])
         | Inr cache_dir \<Rightarrow>
             let target_path =
                   (if os_name = ''windows'' then path_join cache_dir (BINARY_NAME @ ''.exe'')
                    else path_join cache_dir BINARY_NAME);
                 out1 = [''Downloading SENSE binary from '' @ download_url @ ''...'']
             in (case urlretrieve h download_url target_path of
                   Some e \<Rightarrow>
                     (Inl (BinaryNotFoundError
                            (''Failed to download binary from '' @ download_url
                               @ ''. You may need to build the binary manually. Error: '' @ e)),
                      out1)
                 | None \<Rightarrow>
                     (case make_executable h target_path of
                        Some e \<Rightarrow> (Inl (Builtin ''OSError'' e), out1)
                      | None \<Rightarrow>
                          (Inr target_path, out1 @ [''Binary downloaded to '' @ target_path]))))"

text \<open>
  \<open>get_binary_path\<close> returns the path or the exception, the manager with the path it
  remembered, and the lines printed. A remembered path that still exists is returned before
  any strategy runs. In the third strategy \<open>get_cache_dir\<close> and \<open>_make_executable\<close> stand
  outside every \<open>try\<close>: what they raise leaves the call as it is, and the path is remembered
  before its mode is set.
\<close>

definition get_binary_path ::
  "BinaryManager \<Rightarrow> host \<Rightarrow> (exn + string) \<times> BinaryManager \<times> string list" where
  "get_binary_path bm h =
     (case (case binary_path bm of
              None \<Rightarrow> None
            | Some p \<Rightarrow> if path_exists h p then Some p else None) of
        Some p \<Rightarrow> (Inr p, bm, [])
      | None \<Rightarrow>
          (case find_in_path h of
             Some binary_in_path \<Rightarrow>
               (Inr binary_in_path, bm\<lparr>binary_path := Some binary_in_path\<rparr>, [])
           | None \<Rightarrow>
               let dev_binary = path_join (project_root h) ''sense''
               in if path_exists h dev_binary then
                    (Inr dev_binary, bm\<lparr>binary_path := Some dev_binary\<rparr>, [])
                  else
                    (case cache_dir_result h of
                       Inl e \<Rightarrow> (Inl (Builtin ''OSError'' e), bm, [])
                     | Inr cache_dir \<Rightarrow>
                         let cache_binary = path_join cache_dir BINARY_NAME
                         in if path_exists h cache_binary then
                              (case make_executable h cache_binary of
                                 Some e \<Rightarrow>
                                   (Inl (Builtin ''OSError'' e),
                                    bm\<lparr>binary_path := Some cache_binary\<rparr>, [])
                               | None \<Rightarrow>
                                   (Inr cache_binary, bm\<lparr>binary_path := Some cache_binary\<rparr>, []))
                            else
                              (case download_binary bm h of
                                 (Inr downloaded_binary, out) \<Rightarrow>
                                   (Inr downloaded_binary,
                                    bm\<lparr>binary_path := Some downloaded_binary\<rparr>, out)
                               | (Inl e, out) \<Rightarrow>
                                   (Inl (BinaryNotFoundError
                                          (''Could not find or download SENSE binary. ''
                                             @ ''Please build it manually or check your internet connection. Error: ''
                                             @ exn_str e)),
                                    bm, out)))))"

text \<open>
  The four strategies of \<open>get_binary_path\<close>, each as what it finds on its own, in the order
  of the source: search path, development tree, cache, download.
\<close>

definition strategies :: "BinaryManager \<Rightarrow> host \<Rightarrow> string option list" where
  "strategies bm h =
     [find_in_path h,
      if path_exists h (path_join (project_root h) ''sense'')
      then Some (path_join (project_root h) ''sense'') else None,
      case cache_dir_result h of
        Inl e \<Rightarrow> None
      | Inr cache_dir \<Rightarrow>
          if path_exists h (path_join cache_dir BINARY_NAME)
          then Some (path_join cache_dir BINARY_NAME) else None,
      case fst (download_binary bm h) of Inr p \<Rightarrow> Some p | Inl e \<Rightarrow> None]"


section \<open>client.py: SenseClient\<close>

text \<open>A decoded JSON value.\<close>

datatype json =
    JNull
  | JBool bool
  | JInt int
  | JFloat real
  | JString string
  | JArray "json list"
  | JObject "(string \<times> json) list"

text \<open>
  The decoders (\<open>json.loads\<close>, \<open>response.json()\<close>) belong to the Python libraries and are
  parameters of the functions that call them. A decoder returns the value, or raises:
  \<open>json.JSONDecodeError\<close>; the \<open>JSONDecodeError\<close> of the HTTP library, which is both a
  \<open>json.JSONDecodeError\<close> and a \<open>RequestException\<close>; or an exception of another class
  (\<open>RecursionError\<close> on deep nesting, \<open>ValueError\<close> on a number with too many digits), given
  by the name of its class and its message.
\<close>

datatype decode_error =
    JSONDecodeError string
  | RequestsJSONDecodeError string
  | DecoderRaised string string

type_synonym decoder = "string \<Rightarrow> decode_error + json"

record response =
  status_code :: nat
  reason :: string
  url :: string
  body :: string

text \<open>
  \<open>session.get(url)\<close> answers with a response, or raises a \<open>RequestException\<close> whose text
  is the left summand.
\<close>

type_synonym network = "string \<Rightarrow> string + response"

record SenseClient =
  base_url :: string
  client_timeout :: int

definition new_SenseClient :: "string \<Rightarrow> int \<Rightarrow> SenseClient" where
  "new_SenseClient address t = \<lparr>base_url = rstrip_slash address, client_timeout = t\<rparr>"

definition health_check :: "SenseClient \<Rightarrow> network \<Rightarrow> bool" where
  "health_check c net =
     (case net (base_url c @ ''/findings'') of
        Inl e \<Rightarrow> False
      | Inr r \<Rightarrow> status_code r = 200)"

text \<open>
  \<open>raise_for_status\<close>: the message of the \<open>HTTPError\<close> it raises, for the status codes 400
  to 599, else \<open>None\<close>.
\<close>

definition raise_for_status :: "response \<Rightarrow> string option" where
  "raise_for_status r =
     (if 400 \<le> status_code r \<and> status_code r < 500 then
        Some (str_nat (status_code r) @ '' Client Error: '' @ reason r @ '' for url: '' @ url r)
      else if 500 \<le> status_code r \<and> status_code r < 600 then
        Some (str_nat (status_code r) @ '' Server Error: '' @ reason r @ '' for url: '' @ url r)
      else None)"

text \<open>
  \<open>get_findings\<close>. The handler for \<open>RequestException\<close> comes first and also catches the
  HTTP library's \<open>JSONDecodeError\<close>; the handler for \<open>json.JSONDecodeError\<close> catches the plain
  one; what else the decoder raises is not caught. A decoded value that is not a list is
  replaced by the empty list.
\<close>

definition get_findings ::
  "decoder \<Rightarrow> SenseClient \<Rightarrow> network \<Rightarrow> int option \<Rightarrow> exn + json list" where
  "get_findings response_json c net limit =
     (case net (base_url c @ ''/findings'') of
        Inl e \<Rightarrow> Inl (APIError (''Failed to fetch findings: '' @ e))
      | Inr r \<Rightarrow>
          (case raise_for_status r of
             Some e \<Rightarrow> Inl (APIError (''Failed to fetch findings: '' @ e))
           | None \<Rightarrow>
               (case response_json (body r) of
                  Inl (RequestsJSONDecodeError e) \<Rightarrow>
                    Inl (APIError (''Failed to fetch findings: '' @ e))
                | Inl (JSONDecodeError e) \<Rightarrow>
                    Inl (APIError (''Failed to parse API response: '' @ e))
                | Inl (DecoderRaised cls e) \<Rightarrow> Inl (Builtin cls e)
                | Inr findings \<Rightarrow>
                    (case findings of
                       JArray xs \<Rightarrow>
                         Inr (case limit of None \<Rightarrow> xs | Some n \<Rightarrow> slice_to xs n)
                     | _ \<Rightarrow> Inr []))))"

record sse_event =
  event :: string
  data :: string

text \<open>
  An event stream as the generator sees it: the response, the events that arrive, and the
  text of the \<open>RequestException\<close> that ends the iteration, if one does.
\<close>

record sse_stream =
  stream_response :: response
  stream_events :: "sse_event list"
  stream_error :: "string option"

text \<open>
  The loop of \<open>stream_findings\<close> over the events: the values it yields, in order, and the
  exception that ends it, if any. \<open>except json.JSONDecodeError\<close> passes over an event whose
  data raises a decode error; any other exception of the decoder ends the generator.
\<close>

fun yield_findings :: "decoder \<Rightarrow> sse_event list \<Rightarrow> json list \<times> exn option" where
  "yield_findings json_loads [] = ([], None)"
| "yield_findings json_loads (e # es) =
     (if event e = ''finding'' then
        (case json_loads (data e) of
           Inr finding \<Rightarrow>
             (case yield_findings json_loads es of (ys, r) \<Rightarrow> (finding # ys, r))
         | Inl (DecoderRaised cls m) \<Rightarrow> ([], Some (Builtin cls m))
         | Inl (JSONDecodeError m) \<Rightarrow> yield_findings json_loads es
         | Inl (RequestsJSONDecodeError m) \<Rightarrow> yield_findings json_loads es)
      else if event e = ''connected'' then yield_findings json_loads es
      else yield_findings json_loads es)"

text \<open>
  \<open>stream_findings\<close> returns the values the generator yields and the exception it ends
  with, if any.
\<close>

definition stream_findings ::
  "decoder \<Rightarrow> SenseClient \<Rightarrow> (string \<Rightarrow> string + sse_stream) \<Rightarrow> json list \<times> exn option" where
  "stream_findings json_loads c open_stream =
     (case open_stream (base_url c @ ''/stream'') of
        Inl e \<Rightarrow> ([], Some (APIError (''Failed to stream findings: '' @ e)))
      | Inr st \<Rightarrow>
          (case raise_for_status (stream_response st) of
             Some e \<Rightarrow> ([], Some (APIError (''Failed to stream findings: '' @ e)))
           | None \<Rightarrow>
               (case yield_findings json_loads (stream_events st) of
                  (ys, Some ex) \<Rightarrow> (ys, Some ex)
                | (ys, None) \<Rightarrow>
                    (ys, map_option (\<lambda>e. APIError (''Failed to stream findings: '' @ e))
                           (stream_error st)))))"




section \<open>server.py: SenseServer\<close>

record Popen =
  pid :: int

record SenseServer =
  port :: int
  interface :: string
  db_path :: string
  policy_file :: string
  use_sudo :: bool
  binary_manager :: BinaryManager
  process :: "Popen option"

text \<open>\<open>None\<close> for an argument that is \<open>None\<close> in the call; \<open>x or d\<close> also replaces an empty string.\<close>

definition new_SenseServer ::
  "int \<Rightarrow> string \<Rightarrow> string option \<Rightarrow> string option \<Rightarrow> bool \<Rightarrow> SenseServer" where
  "new_SenseServer p iface db pol sudo =
     \<lparr>port = p,
      interface = iface,
      db_path =
        (case db of None \<Rightarrow> ''/tmp/sense.db'' | Some d \<Rightarrow> if d = [] then ''/tmp/sense.db'' else d),
      policy_file =
        (case pol of None \<Rightarrow> ''policies.yaml'' | Some f \<Rightarrow> if f = [] then ''policies.yaml'' else f),
      use_sudo = sudo,
      binary_manager = \<lparr>version = ''latest'', binary_path = None\<rparr>,
      process = None\<rparr>"

text \<open>The PID file: absent, present but not readable (\<open>IOError\<close>), or present with its text.\<close>

datatype pid_file_state = Missing | Unreadable | Contents string

datatype psutil_error = NoSuchProcess | AccessDenied

text \<open>
  What \<open>psutil.Process(pid)\<close> shows of a process: the answer of \<open>is_running()\<close>, and the
  answer of \<open>name()\<close> or the exception it raises.
\<close>

record os_process =
  proc_is_running :: bool
  proc_name :: "psutil_error + string"

text \<open>What the supervisor does to the world outside it, in the order it does it.\<close>

datatype action =
    Print string
  | Spawn "string list" int
  | WritePid string
  | Terminate int
  | Kill int
  | Reaped int int
  | RemovePid

text \<open>
  The world a call observes: the PID file, \<open>poll()\<close> of a child by its pid (\<open>None\<close> while it
  runs, else its return code), \<open>psutil.Process\<close> by pid, the HTTP endpoint, and the actions
  taken so far.
\<close>

record world =
  pid_file :: pid_file_state
  poll :: "int \<Rightarrow> int option"
  psutil_Process :: "int \<Rightarrow> psutil_error + os_process"
  http_get :: network
  trace :: "action list"

definition emit :: "action \<Rightarrow> world \<Rightarrow> world" where
  "emit a w = w\<lparr>trace := trace w @ [a]\<rparr>"

definition save_pid :: "int \<Rightarrow> world \<Rightarrow> world" where
  "save_pid p w = emit (WritePid (str_int p)) (w\<lparr>pid_file := Contents (str_int p)\<rparr>)"

definition read_pid :: "world \<Rightarrow> int option" where
  "read_pid w =
     (case pid_file w of
        Missing \<Rightarrow> None
      | Unreadable \<Rightarrow> None
      | Contents t \<Rightarrow> py_int (strip t))"

definition remove_pid :: "world \<Rightarrow> world" where
  "remove_pid w =
     (case pid_file w of
        Missing \<Rightarrow> w
      | _ \<Rightarrow> emit RemovePid (w\<lparr>pid_file := Missing\<rparr>))"

definition server_client :: "SenseServer \<Rightarrow> SenseClient" where
  "server_client s = new_SenseClient (''http://localhost:'' @ str_int (port s)) 30"

text \<open>
  The three signals of \<open>is_running\<close>. \<open>handle_alive\<close>: the supervisor holds a handle and
  \<open>poll()\<close> is \<open>None\<close>. \<open>pid_file_check\<close>: the PID branch, \<open>Inr (Some b)\<close> when it returns \<open>b\<close>,
  \<open>Inr None\<close> when control falls through to the probe (no PID, PID 0, or one of the two
  exceptions caught), and \<open>Inl\<close> for the \<open>ValueError\<close> that \<open>psutil.Process\<close> raises for a
  negative pid before it looks anything up, which nothing catches.
\<close>

definition handle_alive :: "SenseServer \<Rightarrow> world \<Rightarrow> bool" where
  "handle_alive s w = (case process s of None \<Rightarrow> False | Some h \<Rightarrow> poll w (pid h) = None)"

definition pid_file_check :: "world \<Rightarrow> exn + bool option" where
  "pid_file_check w =
     (case read_pid w of
        None \<Rightarrow> Inr None
      | Some p \<Rightarrow>
          if p = 0 then Inr None
          else if p < 0 then
            Inl (Builtin ''ValueError''
                  (''pid must be a positive integer (got '' @ str_int p @ '')''))
          else (case psutil_Process w p of
                  Inl e \<Rightarrow> Inr None
                | Inr pr \<Rightarrow>
                    if \<not> proc_is_running pr then Inr (Some False)
                    else (case proc_name pr of
                            Inl e \<Rightarrow> Inr None
                          | Inr n \<Rightarrow> Inr (Some (contains (lower n) ''sense'')))))"

definition is_running :: "SenseServer \<Rightarrow> world \<Rightarrow> exn + bool" where
  "is_running s w =
     (if handle_alive s w then Inr True
      else (case pid_file_check w of
              Inl e \<Rightarrow> Inl e
            | Inr (Some b) \<Rightarrow> Inr b
            | Inr None \<Rightarrow> Inr (health_check (server_client s) (http_get w))))"

text \<open>
  What \<open>stop\<close> meets when it acts on the handle: the exception text if \<open>terminate()\<close>
  raises, the outcome of \<open>wait(timeout=timeout)\<close>, the exception text if \<open>kill()\<close> raises, and
  the outcome of the final \<open>wait()\<close> (an exception text or the return code).
\<close>

datatype wait_result = Exited int | TimeoutExpired | WaitError string

record stop_env =
  terminate_error :: "string option"
  first_wait :: wait_result
  kill_error :: "string option"
  second_wait :: "string + int"

definition reap :: "int \<Rightarrow> int \<Rightarrow> world \<Rightarrow> world" where
  "reap p rc w = emit (Reaped p rc) (w\<lparr>poll := (poll w)(p := Some rc)\<rparr>)"

text \<open>
  The body of \<open>if self.process:\<close> in \<open>stop\<close>, up to the last \<open>wait\<close>: the text of the
  exception raised, if any, and the world after the actions taken.
\<close>

definition stop_process :: "stop_env \<Rightarrow> Popen \<Rightarrow> world \<Rightarrow> string option \<times> world" where
  "stop_process env h w =
     (let w1 = emit (Print ''Stopping SENSE server...'') w
      in case terminate_error env of
           Some e \<Rightarrow> (Some e, w1)
         | None \<Rightarrow>
             let w2 = emit (Terminate (pid h)) w1
             in (case first_wait env of
                   Exited rc \<Rightarrow> (None, reap (pid h) rc w2)
                 | WaitError e \<Rightarrow> (Some e, w2)
                 | TimeoutExpired \<Rightarrow>
                     let w3 = emit (Print ''Forcing server shutdown...'') w2
                     in (case kill_error env of
                           Some e \<Rightarrow> (Some e, w3)
                         | None \<Rightarrow>
                             let w4 = emit (Kill (pid h)) w3
                             in (case second_wait env of
                                   Inl e \<Rightarrow> (Some e, w4)
                                 | Inr rc \<Rightarrow> (None, reap (pid h) rc w4)))))"

definition stop ::
  "stop_env \<Rightarrow> SenseServer \<Rightarrow> world \<Rightarrow> int \<Rightarrow> (exn + unit) \<times> SenseServer \<times> world" where
  "stop env s w timeout =
     (case is_running s w of
        Inl e \<Rightarrow> (Inl e, s, w)
      | Inr running \<Rightarrow>
          if \<not> running then (Inr (), s, w)
          else (case process s of
                  None \<Rightarrow> (Inr (), s, remove_pid w)
                | Some h \<Rightarrow>
                    (case stop_process env h w of
                       (Some e, w1) \<Rightarrow>
                         (Inl (ServerError (''Failed to stop SENSE server: '' @ e)), s, w1)
                     | (None, w1) \<Rightarrow>
                         (Inr (), s\<lparr>process := None\<rparr>,
                          remove_pid (emit (Print ''SENSE server stopped'') w1)))))"

text \<open>
  One round of the readiness loop as the supervisor observes it: the reading of
  \<open>time.time()\<close> at the loop test, what the endpoint answers to the probe, and what \<open>poll()\<close>
  of the child returns.
\<close>

record tick =
  clock :: real
  tick_http :: network
  tick_poll :: "int option"

text \<open>
  \<open>wait_for_ready\<close> over the rounds observed; \<open>None\<close> when the loop is still running after
  the last of them. \<open>err\<close> is what \<open>stderr.read()\<close> returns.
\<close>

fun wait_for_ready ::
  "SenseServer \<Rightarrow> int \<Rightarrow> real \<Rightarrow> string \<Rightarrow> tick list \<Rightarrow> (exn + unit) option" where
  "wait_for_ready s timeout start_time err [] = None"
| "wait_for_ready s timeout start_time err (t # ts) =
     (if clock t - start_time < of_int timeout then
        if health_check (server_client s) (tick_http t) then Some (Inr ())
        else if process s \<noteq> None \<and> tick_poll t \<noteq> None then
          Some (Inl (ServerError (''Server process died unexpectedly: '' @ err)))
        else wait_for_ready s timeout start_time err ts
      else
        Some (Inl (ServerError
                    (''Server failed to become ready within '' @ str_int timeout @ '' seconds''))))"

text \<open>
  What \<open>start\<close> meets: the machine the binary is looked up on, the outcome of
  \<open>subprocess.Popen\<close> (an exception text or the pid of the child), the first reading of the
  clock, the rounds of the readiness loop, and the text on the child's standard error.
\<close>

record start_env =
  env_host :: host
  popen_result :: "string + int"
  start_time :: real
  ticks :: "tick list"
  stderr_text :: string

definition build_cmd :: "SenseServer \<Rightarrow> string \<Rightarrow> string list" where
  "build_cmd s binary =
     (if use_sudo s then [''sudo''] else [])
       @ [binary, ''--port'', str_int (port s), ''--interface'', interface s, ''--db'', db_path s]
       @ (if policy_file s \<noteq> [] then [''--policies'', policy_file s] else [])"

text \<open>\<open>emit_lines\<close>: the lines a callee has printed, in order.\<close>

definition emit_lines :: "string list \<Rightarrow> world \<Rightarrow> world" where
  "emit_lines ls w = w\<lparr>trace := trace w @ map Print ls\<rparr>"

text \<open>
  \<open>start\<close>. \<open>is_running\<close> is called outside every \<open>try\<close>: what it raises leaves \<open>start\<close> as it
  is. \<open>None\<close> when the readiness loop is still running after the last round observed.
\<close>

definition start ::
  "start_env \<Rightarrow> SenseServer \<Rightarrow> world \<Rightarrow> bool \<Rightarrow> int
     \<Rightarrow> ((exn + unit) \<times> SenseServer \<times> world) option" where
  "start env s w wait timeout =
     (case is_running s w of
        Inl e \<Rightarrow> Some (Inl e, s, w)
      | Inr True \<Rightarrow>
          Some (Inr (), s,
                emit (Print (''SENSE server is already running on port '' @ str_int (port s))) w)
      | Inr False \<Rightarrow>
          (case get_binary_path (binary_manager s) (env_host env) of
             (Inl e, bm, out) \<Rightarrow>
               Some (Inl (ServerError (''Failed to locate SENSE binary: '' @ exn_str e)),
                     s\<lparr>binary_manager := bm\<rparr>, emit_lines out w)
           | (Inr binary, bm, out) \<Rightarrow>
               let cmd = build_cmd s binary;
                   w1 = emit (Print (''Starting SENSE server on port '' @ str_int (port s)
                                       @ ''...'')) (emit_lines out w);
                   w2 = (if use_sudo s
                         then emit (Print ''Note: Running with sudo for network scanning capabilities'')
                                w1
                         else w1)
               in (case popen_result env of
                     Inl e \<Rightarrow>
                       Some (Inl (ServerError (''Failed to start SENSE server: '' @ e)),
                             s\<lparr>binary_manager := bm\<rparr>, w2)
                   | Inr child \<Rightarrow>
                       let s1 = s\<lparr>binary_manager := bm, process := Some \<lparr>pid = child\<rparr>\<rparr>;
                           w3 = save_pid child (emit (Spawn cmd child) w2);
                           w4 = emit (Print (''SENSE server started successfully (PID: ''
                                               @ str_int child @ '')'')) w3
                       in if wait then
                            (case wait_for_ready s1 timeout (start_time env) (stderr_text env)
                                    (ticks env) of
                               None \<Rightarrow> None
                             | Some (Inl e) \<Rightarrow>
                                 Some (Inl (ServerError
                                             (''Failed to start SENSE server: '' @ exn_str e)),
                                       s1, w3)
                             | Some (Inr u) \<Rightarrow> Some (Inr (), s1, w4))
                          else Some (Inr (), s1, w4))))"

text \<open>The number of processes spawned in a trace.\<close>

fun spawned :: "action list \<Rightarrow> nat" where
  "spawned [] = 0"
| "spawned (Spawn cmd p # as) = Suc (spawned as)"
| "spawned (a # as) = spawned as"

text \<open>The signals sent in a trace.\<close>

fun is_signal :: "action \<Rightarrow> bool" where
  "is_signal (Terminate p) = True"
| "is_signal (Kill p) = True"
| "is_signal a = False"


section \<open>Concrete machines\<close>

definition refused :: network where
  "refused = (\<lambda>u. Inl ''Connection refused'')"

definition healthy_8080 :: network where
  "healthy_8080 =
     (\<lambda>u. if u = ''http://localhost:8080/findings''
          then Inr \<lparr>status_code = 200, reason = ''OK'', url = u, body = ''[]''\<rparr>
          else Inl ''Connection refused'')"

text \<open>Nothing runs, nothing is recorded, nothing listens.\<close>

definition idle_world :: world where
  "idle_world =
     \<lparr>pid_file = Missing,
      poll = (\<lambda>p. None),
      psutil_Process = (\<lambda>p. Inl NoSuchProcess),
      http_get = refused,
      trace = []\<rparr>"

definition default_server :: SenseServer where
  "default_server = new_SenseServer 8080 ''en0'' None None False"

text \<open>
  The backend was started with \<open>sudo\<close> by an earlier run of the controller: the PID file
  names the \<open>sudo\<close> process, which runs, and the backend answers on the port.
\<close>

definition sudo_world :: world where
  "sudo_world =
     idle_world
       \<lparr>pid_file := Contents ''4242'',
        psutil_Process :=
          (\<lambda>p. if p = 4242 then Inr \<lparr>proc_is_running = True, proc_name = Inr ''sudo''\<rparr>
                else Inl NoSuchProcess),
        http_get := healthy_8080\<rparr>"

text \<open>
  The backend was started by an earlier run of the controller: the PID file names the
  \<open>sense\<close> process, which runs, and the backend answers on the port.
\<close>

definition detached_world :: world where
  "detached_world =
     idle_world
       \<lparr>pid_file := Contents ''4242'',
        psutil_Process :=
          (\<lambda>p. if p = 4242 then Inr \<lparr>proc_is_running = True, proc_name = Inr ''sense''\<rparr>
                else Inl NoSuchProcess),
        http_get := healthy_8080\<rparr>"

text \<open>Nothing runs and nothing listens; the PID file holds the text \<open>-5\<close>.\<close>

definition negative_pid_world :: world where
  "negative_pid_world = idle_world\<lparr>pid_file := Contents ''-5''\<rparr>"

definition any_stop_env :: stop_env where
  "any_stop_env =
     \<lparr>terminate_error = None, first_wait = Exited 0, kill_error = None, second_wait = Inr 0\<rparr>"

text \<open>
  A Linux machine with \<open>sense\<close> on the search path and nothing else; the network is down.
  On \<open>cached_host\<close> a copy is also in the cache directory. On \<open>locked_cache_host\<close> the copy
  in the cache is all there is, and it belongs to another user: its mode cannot be set.
\<close>

definition path_host :: host where
  "path_host =
     \<lparr>platform_system = ''Linux'',
      platform_machine = ''x86_64'',
      sys_platform = ''linux'',
      path_exists = (\<lambda>p. False),
      which_sense = Some (0, ''/usr/local/bin/sense'' @ [CHR 0x0A]),
      project_root = ''/opt/sense-ai'',
      cache_dir_result = Inr ''/home/user/.cache/senseai'',
      chmod_error = (\<lambda>p. None),
      urlretrieve = (\<lambda>u target. Some ''Network is unreachable'')\<rparr>"

definition cached_host :: host where
  "cached_host = path_host\<lparr>path_exists := (\<lambda>p. p = ''/home/user/.cache/senseai/sense'')\<rparr>"

definition locked_cache_host :: host where
  "locked_cache_host =
     cached_host
       \<lparr>which_sense := Some (1, ''''),
        chmod_error := (\<lambda>p. Some ''[Errno 1] Operation not permitted'')\<rparr>"

text \<open>A machine on which \<open>sense\<close> is nowhere to be found and the network is down.\<close>

definition bare_host :: host where
  "bare_host = path_host\<lparr>which_sense := Some (1, '''')\<rparr>"

text \<open>A manager that resolved the binary from the cache in an earlier call.\<close>

definition cached_manager :: BinaryManager where
  "cached_manager =
     \<lparr>version = ''latest'', binary_path = Some ''/home/user/.cache/senseai/sense''\<rparr>"

text \<open>One hundred thousand opening brackets: the decoder gives up on the nesting.\<close>

definition deep_text :: string where
  "deep_text = replicate 100000 (CHR ''['')"

text \<open>
  A decoder that agrees with the library on the six texts used below: an empty object, an
  empty array and a one-element array decode; \<open>deep_text\<close> raises \<open>RecursionError\<close>; the two
  others raise the decode error \<open>err\<close> with the library's message. Every other text is taken
  not to decode.
\<close>

definition decode_sample :: "(string \<Rightarrow> decode_error) \<Rightarrow> decoder" where
  "decode_sample err t =
     (if t = ''{}'' then Inr (JObject [])
      else if t = ''[]'' then Inr (JArray [])
      else if t = ''[1]'' then Inr (JArray [JInt 1])
      else if t = ''{bad'' then
        Inl (err ''Expecting property name enclosed in double quotes: line 1 column 2 (char 1)'')
      else if t = ''<html>'' then Inl (err ''Expecting value: line 1 column 1 (char 0)'')
      else if t = deep_text then
        Inl (DecoderRaised ''RecursionError''
              ''maximum recursion depth exceeded while decoding a JSON array from a unicode string'')
      else Inl (err ''Expecting value: line 1 column 1 (char 0)''))"

definition sample_json_loads :: decoder where
  "sample_json_loads = decode_sample JSONDecodeError"

definition sample_response_json :: decoder where
  "sample_response_json = decode_sample RequestsJSONDecodeError"

text \<open>The results endpoint answers 200 with the given payload.\<close>

definition payload_network :: "string \<Rightarrow> network" where
  "payload_network t = (\<lambda>u. Inr \<lparr>status_code = 200, reason = ''OK'', url = u, body = t\<rparr>)"

definition default_client :: SenseClient where
  "default_client = new_SenseClient ''http://localhost:8080'' 30"

text \<open>An open stream that delivers the given events and then ends.\<close>

definition events_stream :: "sse_event list \<Rightarrow> string \<Rightarrow> string + sse_stream" where
  "events_stream es =
     (\<lambda>u. Inr \<lparr>stream_response = \<lparr>status_code = 200, reason = ''OK'', url = u, body = ''''\<rparr>,
               stream_events = es,
               stream_error = None\<rparr>)"

text \<open>
  A \<open>connected\<close> event, a \<open>finding\<close> event that decodes and a \<open>finding\<close> event that does
  not.
\<close>

definition sample_events :: "sse_event list" where
  "sample_events =
     [\<lparr>event = ''connected'', data = ''''\<rparr>,
      \<lparr>event = ''finding'', data = ''{}''\<rparr>,
      \<lparr>event = ''finding'', data = ''{bad''\<rparr>]"

text \<open>
  A \<open>connected\<close> event, a \<open>finding\<close> event that decodes, a \<open>finding\<close> event whose payload is
  \<open>deep_text\<close>, and a \<open>finding\<close> event that decodes.
\<close>

definition deep_events :: "sse_event list" where
  "deep_events =
     [\<lparr>event = ''connected'', data = ''''\<rparr>,
      \<lparr>event = ''finding'', data = ''{}''\<rparr>,
      \<lparr>event = ''finding'', data = deep_text\<rparr>,
      \<lparr>event = ''finding'', data = ''[1]''\<rparr>]"

text \<open>A round of the readiness loop in which nothing answers and the child still runs.\<close>

definition quiet_tick :: "real \<Rightarrow> tick" where
  "quiet_tick c = \<lparr>clock = c, tick_http = refused, tick_poll = None\<rparr>"

text \<open>A round in which nothing answers and the child has exited with status 1.\<close>

definition dead_tick :: "real \<Rightarrow> tick" where
  "dead_tick c = \<lparr>clock = c, tick_http = refused, tick_poll = Some 1\<rparr>"

text \<open>A round in which the backend answers on port 8080.\<close>

definition ready_tick :: "real \<Rightarrow> tick" where
  "ready_tick c = \<lparr>clock = c, tick_http = healthy_8080, tick_poll = None\<rparr>"

text \<open>
  The child exits 0.7 seconds into the wait: the rounds at 0 and 0.5 seconds see it
  running, the loop test at 1 second is the next thing the supervisor does.
\<close>

definition late_exit_env :: start_env where
  "late_exit_env =
     \<lparr>env_host = path_host,
      popen_result = Inr 4242,
      start_time = 0,
      ticks = [quiet_tick 0, quiet_tick (1 / 2), dead_tick 1],
      stderr_text = ''listen tcp :8080: bind: address already in use''\<rparr>"

text \<open>The child exits two seconds into the wait.\<close>

definition early_exit_env :: start_env where
  "early_exit_env =
     late_exit_env\<lparr>ticks := map quiet_tick [0, 1 / 2, 1, 3 / 2] @ [dead_tick 2]\<rparr>"

text \<open>The child runs and never answers.\<close>

definition silent_env :: start_env where
  "silent_env =
     late_exit_env\<lparr>ticks := map quiet_tick [0, 1 / 2, 1, 3 / 2, 2, 5 / 2, 3, 7 / 2, 4, 9 / 2, 5]\<rparr>"

text \<open>The child answers in the second round.\<close>

definition ready_env :: start_env where
  "ready_env = late_exit_env\<lparr>ticks := [quiet_tick 0, ready_tick (1 / 2)]\<rparr>"



section \<open>Facts about the string functions\<close>

lemma digit_val_digit_char: "d < 10 \<Longrightarrow> digit_val (digit_char d) = Some d"
proof -
  assume "d < 10"
  then have "d \<in> {0, 1, 2, 3, 4, 5, 6, 7, 8, 9}" by auto
  then show ?thesis by (auto simp: digit_val_def digit_char_def)
qed

lemma digit_val_plain:
  assumes "digit_val c = Some v"
  shows "c \<noteq> CHR ''_''" and "c \<noteq> CHR ''-''" and "c \<noteq> CHR ''+''" and "\<not> is_space c"
  using assms by (auto simp: digit_val_def is_space_def split: if_splits)

lemma parse_digits_all_digits:
  "\<forall>c \<in> set xs. digit_val c \<noteq> None \<Longrightarrow> parse_digits acc xs = Some (foldl digit_step acc xs)"
proof (induction xs arbitrary: acc)
  case Nil
  then show ?case by simp
next
  case (Cons c cs)
  then obtain v where v: "digit_val c = Some v" by auto
  then have "c \<noteq> CHR ''_''" by (rule digit_val_plain)
  with v Cons show ?case by (simp add: digit_step_def)
qed

lemma str_nat_digits: "\<forall>c \<in> set (str_nat n). digit_val c \<noteq> None"
proof (induction n rule: str_nat.induct)
  case (1 n)
  show ?case
  proof (cases "n < 10")
    case True
    then show ?thesis by (simp add: str_nat.simps [of n] digit_val_digit_char)
  next
    case False
    have "n mod 10 < 10" by simp
    then have "digit_val (digit_char (n mod 10)) \<noteq> None" by (simp add: digit_val_digit_char)
    with False 1 show ?thesis by (simp add: str_nat.simps [of n])
  qed
qed

lemma str_nat_nonempty: "str_nat n \<noteq> []"
  by (subst str_nat.simps) simp

lemma foldl_str_nat: "foldl digit_step 0 (str_nat n) = n"
proof (induction n rule: str_nat.induct)
  case (1 n)
  show ?case
  proof (cases "n < 10")
    case True
    then show ?thesis by (simp add: str_nat.simps [of n] digit_step_def digit_val_digit_char)
  next
    case False
    have "n mod 10 < 10" by simp
    then have "digit_val (digit_char (n mod 10)) = Some (n mod 10)" by (rule digit_val_digit_char)
    with False 1 show ?thesis by (simp add: str_nat.simps [of n] digit_step_def)
  qed
qed

lemma parse_nat_str_nat: "parse_nat (str_nat n) = Some n"
proof -
  obtain c cs where cs: "str_nat n = c # cs"
    using str_nat_nonempty [of n] by (cases "str_nat n") auto
  have all: "\<forall>x \<in> set (c # cs). digit_val x \<noteq> None"
    using str_nat_digits [of n] cs by simp
  then obtain v where v: "digit_val c = Some v" by auto
  have "parse_digits v cs = Some (foldl digit_step v cs)"
    using all by (intro parse_digits_all_digits) simp
  also have "foldl digit_step v cs = foldl digit_step 0 (c # cs)"
    using v by (simp add: digit_step_def)
  also have "\<dots> = n" using foldl_str_nat [of n] cs by simp
  finally show ?thesis using cs v by (simp add: parse_nat_def)
qed

lemma dropWhile_snoc: "\<not> P x \<Longrightarrow> dropWhile P (ys @ [x]) = dropWhile P ys @ [x]"
  by (induction ys) auto

lemma strip_id: "s \<noteq> [] \<Longrightarrow> \<not> is_space (hd s) \<Longrightarrow> \<not> is_space (last s) \<Longrightarrow> strip s = s"
proof -
  assume ne: "s \<noteq> []" and h: "\<not> is_space (hd s)" and l: "\<not> is_space (last s)"
  from ne h have "dropWhile is_space s = s" by (cases s) auto
  moreover from ne l have "dropWhile is_space (rev s) = rev s"
    by (cases "rev s") (auto simp: last_rev hd_rev [symmetric] simp flip: hd_rev)
  ultimately show ?thesis by (simp add: strip_def)
qed

lemma strip_strip: "strip (strip t) = strip t"
proof (cases "dropWhile is_space t")
  case Nil
  have a: "strip t = []" unfolding strip_def Nil by simp
  have "strip [] = []" by (simp add: strip_def)
  then show ?thesis unfolding a .
next
  case (Cons x xs)
  then have nx: "\<not> is_space x" using hd_dropWhile [of is_space t] by auto
  define zs where "zs = dropWhile is_space (rev xs)"
  have b: "strip t = x # rev zs"
    using Cons nx by (simp add: strip_def dropWhile_snoc zs_def)
  have "dropWhile is_space zs = zs" by (simp add: zs_def)
  then show ?thesis
    unfolding b using nx by (simp add: strip_def dropWhile_snoc)
qed

lemma str_nat_ends: "\<not> is_space (hd (str_nat n))" "\<not> is_space (last (str_nat n))"
proof -
  have ne: "str_nat n \<noteq> []" by (rule str_nat_nonempty)
  then have "hd (str_nat n) \<in> set (str_nat n)" "last (str_nat n) \<in> set (str_nat n)" by simp_all
  then have "digit_val (hd (str_nat n)) \<noteq> None" "digit_val (last (str_nat n)) \<noteq> None"
    using str_nat_digits [of n] by blast+
  then show "\<not> is_space (hd (str_nat n))" "\<not> is_space (last (str_nat n))"
    using digit_val_plain(4) by blast+
qed

lemma py_int_str_int: "py_int (str_int i) = Some i"
proof (cases "i < 0")
  case True
  have "\<not> is_space (CHR ''-'')" by (simp add: is_space_def)
  then have "strip (str_int i) = str_int i"
    using True str_nat_ends(2) [of "nat (- i)"] str_nat_nonempty [of "nat (- i)"]
    by (intro strip_id) (simp_all add: str_int_def)
  then show ?thesis using True by (simp add: py_int_def str_int_def parse_nat_str_nat)
next
  case False
  obtain c cs where cs: "str_nat (nat i) = c # cs"
    using str_nat_nonempty [of "nat i"] by (cases "str_nat (nat i)") auto
  have "digit_val c \<noteq> None" using str_nat_digits [of "nat i"] cs by simp
  then have c: "c \<noteq> CHR ''-''" "c \<noteq> CHR ''+''" using digit_val_plain by blast+
  have "strip (str_int i) = str_int i"
    using False str_nat_ends [of "nat i"] str_nat_nonempty [of "nat i"]
    by (intro strip_id) (simp_all add: str_int_def)
  then show ?thesis
    using False c cs parse_nat_str_nat [of "nat i"] by (simp add: py_int_def str_int_def)
qed

lemma py_int_strip: "py_int (strip t) = py_int t"
  by (simp add: py_int_def strip_strip)


text \<open>
  \<open>lower_char\<close> by code points: 65 to 90, and 192 to 222 without 215, move up by 32; every
  other character stays.
\<close>

lemma lower_char_code:
  "(of_char (lower_char c) :: nat) =
     (if (65 \<le> (of_char c :: nat) \<and> (of_char c :: nat) \<le> 90)
         \<or> (192 \<le> (of_char c :: nat) \<and> (of_char c :: nat) \<le> 222 \<and> (of_char c :: nat) \<noteq> 215)
      then of_char c + 32 else of_char c)"
  by (cases c) (simp add: lower_char_def upper_chars_def lower_chars_def)

lemma lower_samples:
  "lower ''Darwin'' = ''darwin''" "lower ''Linux'' = ''linux''" "lower ''Windows'' = ''windows''"
  "lower ''arm64'' = ''arm64''" "lower ''x86_64'' = ''x86_64''" "lower ''AMD64'' = ''amd64''"
  "lower ''aarch64'' = ''aarch64''" "lower ''FreeBSD'' = ''freebsd''"
  "lower ''riscv64'' = ''riscv64''" "lower ''sudo'' = ''sudo''" "lower ''sense'' = ''sense''"
  "lower [CHR 0xC9] = [CHR 0xE9]"
  by (simp_all add: lower_def lower_char_def upper_chars_def lower_chars_def)


section \<open>Facts about the supervisor\<close>

lemma read_pid_contents: "read_pid (w\<lparr>pid_file := Contents t\<rparr>) = py_int t"
  by (simp add: read_pid_def py_int_strip)

lemma py_int_samples:
  "py_int ''4242'' = Some 4242" "py_int ''-5'' = Some (- 5)" "py_int ''abc'' = None"
  by (simp_all add: py_int_def strip_def is_space_def parse_nat_def digit_val_def)

lemma str_int_small:
  "str_int 5 = ''5''" "str_int 1 = ''1''" "str_int 30 = ''30''" "str_int (- 5) = ''-5''"
  by (simp_all add: str_int_def str_nat.simps digit_char_def)

lemma is_running_cases:
  "is_running s w = Inr b \<longleftrightarrow>
     (if handle_alive s w then b
      else pid_file_check w = Inr (Some b)
           \<or> (pid_file_check w = Inr None \<and> b = health_check (server_client s) (http_get w)))"
  by (auto simp: is_running_def split: option.splits sum.splits)

lemma spawned_append: "spawned (xs @ ys) = spawned xs + spawned ys"
  by (induction xs rule: spawned.induct) simp_all

lemma spawned_prints: "spawned (map Print ls) = 0"
  by (induction ls) simp_all

lemma signals_prints: "filter is_signal (map Print ls) = []"
  by (induction ls) simp_all

lemma start_running:
  assumes "is_running s w = Inr True"
  shows "start env s w wait timeout =
           Some (Inr (), s,
                 emit (Print (''SENSE server is already running on port '' @ str_int (port s))) w)"
  using assms by (simp add: start_def)

lemma not_running_never_started:
  assumes "process s = None"
    and "\<forall>p. read_pid w = Some p \<longrightarrow> 0 \<le> p"
    and "\<forall>p pr n. read_pid w = Some p \<and> psutil_Process w p = Inr pr \<and> proc_is_running pr
            \<and> proc_name pr = Inr n \<longrightarrow> \<not> contains (lower n) ''sense''"
    and "\<not> health_check (server_client s) (http_get w)"
  shows "is_running s w = Inr False"
proof -
  have "\<not> handle_alive s w" using assms(1) by (simp add: handle_alive_def)
  moreover have "pid_file_check w = Inr (Some False) \<or> pid_file_check w = Inr None"
    using assms(2,3)
    by (auto simp: pid_file_check_def split: option.splits sum.splits if_splits)
  ultimately show ?thesis using assms(4) by (auto simp: is_running_cases)
qed

lemma default_server_process: "process default_server = None"
  by (simp add: default_server_def new_SenseServer_def)

lemma default_base_url: "base_url (server_client default_server) = ''http://localhost:8080''"
  by (simp add: server_client_def default_server_def new_SenseServer_def new_SenseClient_def
      rstrip_slash_def str_int_def str_nat.simps digit_char_def)

lemma server_client_spawned:
  "server_client (s\<lparr>binary_manager := bm, process := h\<rparr>) = server_client s"
  by (simp add: server_client_def)

lemma refused_unhealthy: "\<not> health_check c refused"
  by (simp add: health_check_def refused_def)

lemma healthy_8080_default: "health_check (server_client default_server) healthy_8080"
  by (simp add: health_check_def default_base_url healthy_8080_def)

lemma read_pid_worlds:
  "read_pid idle_world = None" "read_pid sudo_world = Some 4242"
  "read_pid detached_world = Some 4242" "read_pid negative_pid_world = Some (- 5)"
  by (simp_all add: read_pid_def idle_world_def sudo_world_def detached_world_def
      negative_pid_world_def py_int_strip py_int_samples)

lemma world_fields:
  "psutil_Process sudo_world 4242 = Inr \<lparr>proc_is_running = True, proc_name = Inr ''sudo''\<rparr>"
  "psutil_Process detached_world 4242
     = Inr \<lparr>proc_is_running = True, proc_name = Inr ''sense''\<rparr>"
  "http_get idle_world = refused" "http_get negative_pid_world = refused"
  "http_get sudo_world = healthy_8080" "http_get detached_world = healthy_8080"
  "pid_file detached_world = Contents ''4242''" "trace detached_world = []"
  "trace idle_world = []"
  "\<And>p. psutil_Process negative_pid_world p = Inl NoSuchProcess"
  by (simp_all add: idle_world_def sudo_world_def detached_world_def negative_pid_world_def)

lemma pid_file_check_worlds:
  "pid_file_check idle_world = Inr None"
  "pid_file_check sudo_world = Inr (Some False)"
  "pid_file_check detached_world = Inr (Some True)"
  "pid_file_check negative_pid_world
     = Inl (Builtin ''ValueError'' ''pid must be a positive integer (got -5)'')"
proof -
  show "pid_file_check idle_world = Inr None"
    by (simp add: pid_file_check_def read_pid_worlds)
  show "pid_file_check sudo_world = Inr (Some False)"
    by (simp add: pid_file_check_def read_pid_worlds world_fields lower_samples startswith_def)
  show "pid_file_check detached_world = Inr (Some True)"
    by (simp add: pid_file_check_def read_pid_worlds world_fields lower_samples startswith_def)
  show "pid_file_check negative_pid_world
     = Inl (Builtin ''ValueError'' ''pid must be a positive integer (got -5)'')"
    by (simp add: pid_file_check_def read_pid_worlds str_int_small)
qed

lemma handle_alive_default: "\<not> handle_alive default_server w"
  by (simp add: handle_alive_def default_server_process)

lemma idle_not_running: "is_running default_server idle_world = Inr False"
  by (simp add: is_running_def handle_alive_default pid_file_check_worlds world_fields
      refused_unhealthy)

lemma detached_running: "is_running default_server detached_world = Inr True"
  by (simp add: is_running_def handle_alive_default pid_file_check_worlds)

lemma signals_emit_print: "filter is_signal (trace (emit (Print m) w)) = filter is_signal (trace w)"
  by (simp add: emit_def)

lemma signals_emit_lines: "filter is_signal (trace (emit_lines ls w)) = filter is_signal (trace w)"
  by (simp add: emit_lines_def signals_prints)

lemma signals_spawn:
  "filter is_signal (trace (save_pid p (emit (Spawn cmd p) w))) = filter is_signal (trace w)"
  by (simp add: emit_def save_pid_def)

lemma wait_for_ready_quiet_prefix:
  assumes "\<forall>q \<in> set pre. clock q - t0 < of_int T
             \<and> \<not> health_check (server_client s) (tick_http q) \<and> tick_poll q = None"
  shows "wait_for_ready s T t0 err (pre @ rest) = wait_for_ready s T t0 err rest"
  using assms by (induction pre) simp_all

lemma start_wait_outcome:
  assumes "is_running s w = Inr False"
    and "get_binary_path (binary_manager s) (env_host env) = (Inr binary, bm, out)"
    and "popen_result env = Inr child"
    and "wait_for_ready (s\<lparr>binary_manager := bm, process := Some \<lparr>pid = child\<rparr>\<rparr>) T
           (start_time env) (stderr_text env) (ticks env) = Some (Inl e)"
  shows "\<exists>w'. start env s w True T
            = Some (Inl (ServerError (''Failed to start SENSE server: '' @ exn_str e)),
                    s\<lparr>binary_manager := bm, process := Some \<lparr>pid = child\<rparr>\<rparr>, w')
          \<and> filter is_signal (trace w') = filter is_signal (trace w)
          \<and> pid_file w' = Contents (str_int child)"
  using assms
  by (simp add: start_def Let_def signals_spawn signals_emit_print signals_emit_lines
      save_pid_def emit_def emit_lines_def signals_prints)

lemma start_fresh_success:
  assumes "is_running s w = Inr False" and "start env s w wait T = Some (Inr (), s1, w1)"
  shows "\<exists>child. process s1 = Some \<lparr>pid = child\<rparr> \<and> poll w1 = poll w
           \<and> spawned (trace w1) = spawned (trace w) + 1"
  using assms
  by (auto simp: start_def Let_def emit_def emit_lines_def save_pid_def spawned_append
      spawned_prints split: prod.splits sum.splits option.splits if_splits)

lemma stop_with_handle:
  assumes "process s = Some h" and "is_running s w = Inr True" and "stop env s w T = (r, s', w')"
  shows "case r of
           Inl e \<Rightarrow> pid_file w' = pid_file w \<and> process s' = Some h
         | Inr u \<Rightarrow> poll w' (pid h) \<noteq> None \<and> pid_file w' = Missing \<and> process s' = None"
  using assms
  by (auto simp: stop_def stop_process_def Let_def emit_def reap_def remove_pid_def
      split: option.splits wait_result.splits sum.splits pid_file_state.splits)



text \<open>
  \<open>stop\<close> on a supervisor without a handle, with a PID file that names no running process
  whose name contains \<open>sense\<close> and holds no negative number, and with a failing probe:
  nothing happens.
\<close>

lemma stop_noop_never_started:
  assumes "process s = None"
    and "\<forall>p. read_pid w = Some p \<longrightarrow> 0 \<le> p"
    and "\<forall>p pr n. read_pid w = Some p \<and> psutil_Process w p = Inr pr \<and> proc_is_running pr
            \<and> proc_name pr = Inr n \<longrightarrow> \<not> contains (lower n) ''sense''"
    and "\<not> health_check (server_client s) (http_get w)"
  shows "stop env s w timeout = (Inr (), s, w)"
  using not_running_never_started [OF assms] by (simp add: stop_def)

lemma stop_idle: "stop env default_server idle_world 10 = (Inr (), default_server, idle_world)"
  by (simp add: stop_def idle_not_running)


section \<open>Facts about the binary manager and the client\<close>

lemma find_in_path_hosts:
  "find_in_path path_host = Some ''/usr/local/bin/sense''"
  "find_in_path cached_host = Some ''/usr/local/bin/sense''"
  "find_in_path locked_cache_host = None"
  by (simp_all add: find_in_path_def path_host_def cached_host_def locked_cache_host_def
      strip_def is_space_def)

lemma default_binary_path:
  "get_binary_path (binary_manager default_server) path_host
     = (Inr ''/usr/local/bin/sense'',
        \<lparr>version = ''latest'', binary_path = Some ''/usr/local/bin/sense''\<rparr>, [])"
  by (simp add: get_binary_path_def find_in_path_hosts default_server_def new_SenseServer_def)

lemma env_fields:
  "env_host late_exit_env = path_host" "popen_result late_exit_env = Inr 4242"
  "env_host early_exit_env = path_host" "popen_result early_exit_env = Inr 4242"
  "env_host silent_env = path_host" "popen_result silent_env = Inr 4242"
  "env_host ready_env = path_host" "popen_result ready_env = Inr 4242"
  by (simp_all add: late_exit_env_def early_exit_env_def silent_env_def ready_env_def)

lemma ready_start:
  "\<exists>s1 w1. start ready_env default_server idle_world True 30 = Some (Inr (), s1, w1)"
proof -
  let ?s1 = "default_server\<lparr>binary_manager :=
                 \<lparr>version = ''latest'', binary_path = Some ''/usr/local/bin/sense''\<rparr>,
               process := Some \<lparr>pid = 4242\<rparr>\<rparr>"
  have h: "health_check (server_client ?s1) healthy_8080"
    by (simp add: server_client_spawned healthy_8080_default)
  have "wait_for_ready ?s1 30 (start_time ready_env) (stderr_text ready_env) (ticks ready_env)
          = Some (Inr ())"
    by (simp add: ready_env_def late_exit_env_def quiet_tick_def ready_tick_def
        refused_unhealthy h)
  then show ?thesis
    by (simp add: start_def Let_def env_fields default_binary_path idle_not_running)
qed

lemma deep_text_length: "length deep_text = 100000"
  unfolding deep_text_def by (rule length_replicate)

lemma deep_text_neq:
  "deep_text \<noteq> ''{}''" "deep_text \<noteq> ''[]''" "deep_text \<noteq> ''[1]''" "deep_text \<noteq> ''{bad''"
  "deep_text \<noteq> ''<html>''"
proof -
  have "\<And>t. length t < 100000 \<Longrightarrow> deep_text \<noteq> t"
    using deep_text_length by fastforce
  then show "deep_text \<noteq> ''{}''" "deep_text \<noteq> ''[]''" "deep_text \<noteq> ''[1]''"
    "deep_text \<noteq> ''{bad''" "deep_text \<noteq> ''<html>''"
    by simp_all
qed

lemma decode_sample_values:
  "decode_sample err ''{}'' = Inr (JObject [])"
  "decode_sample err ''[1]'' = Inr (JArray [JInt 1])"
  "decode_sample err ''{bad''
     = Inl (err ''Expecting property name enclosed in double quotes: line 1 column 2 (char 1)'')"
  "decode_sample err ''<html>'' = Inl (err ''Expecting value: line 1 column 1 (char 0)'')"
  "decode_sample err deep_text
     = Inl (DecoderRaised ''RecursionError''
             ''maximum recursion depth exceeded while decoding a JSON array from a unicode string'')"
  by (simp_all add: decode_sample_def deep_text_neq)

lemma default_client_url: "base_url default_client = ''http://localhost:8080''"
  by (simp add: default_client_def new_SenseClient_def rstrip_slash_def)

lemma raise_for_status_200: "status_code r = 200 \<Longrightarrow> raise_for_status r = None"
  by (simp add: raise_for_status_def)

text \<open>
  While the decoder raises nothing but decode errors, the loop yields the decoded payloads
  of the \<open>finding\<close> events that decode, in order, and ends without an exception.
\<close>

lemma yield_findings_map_filter:
  assumes "\<forall>e \<in> set es. \<forall>cls m. json_loads (data e) \<noteq> Inl (DecoderRaised cls m)"
  shows "yield_findings json_loads es
     = (List.map_filter
          (\<lambda>e. if event e = ''finding''
                then (case json_loads (data e) of Inr v \<Rightarrow> Some v | Inl x \<Rightarrow> None) else None) es,
        None)"
  using assms
  by (induction es) (auto split: sum.splits decode_error.splits)

lemma stream_findings_yields:
  assumes "open_stream (base_url c @ ''/stream'') = Inr st"
    and "raise_for_status (stream_response st) = None"
    and "\<forall>e \<in> set (stream_events st). \<forall>cls m. json_loads (data e) \<noteq> Inl (DecoderRaised cls m)"
  shows "fst (stream_findings json_loads c open_stream)
           = List.map_filter
               (\<lambda>e. if event e = ''finding''
                     then (case json_loads (data e) of Inr v \<Rightarrow> Some v | Inl x \<Rightarrow> None)
                     else None)
               (stream_events st)
         \<and> (snd (stream_findings json_loads c open_stream) = None) = (stream_error st = None)"
  using assms by (simp add: stream_findings_def yield_findings_map_filter)

lemma sample_stream_yields:
  "stream_findings sample_json_loads default_client (events_stream sample_events)
     = ([JObject []], None)"
  by (simp add: stream_findings_def events_stream_def sample_events_def raise_for_status_def
      sample_json_loads_def decode_sample_values)

lemma locked_cache_fields:
  "cache_dir_result locked_cache_host = Inr ''/home/user/.cache/senseai''"
  "path_exists locked_cache_host ''/home/user/.cache/senseai/sense''"
  "\<not> path_exists locked_cache_host ''/opt/sense-ai/sense''"
  "project_root locked_cache_host = ''/opt/sense-ai''"
  "make_executable locked_cache_host ''/home/user/.cache/senseai/sense''
     = Some ''[Errno 1] Operation not permitted''"
  by (simp_all add: locked_cache_host_def cached_host_def path_host_def make_executable_def)

lemma bare_host_fields:
  "find_in_path bare_host = None"
  "cache_dir_result bare_host = Inr ''/home/user/.cache/senseai''"
  "\<And>p. \<not> path_exists bare_host p"
  by (simp_all add: bare_host_def path_host_def find_in_path_def strip_def)

lemma bare_host_download:
  "\<exists>m out. download_binary bm bare_host = (Inl (BinaryNotFoundError m), out)"
  by (simp add: download_binary_def bare_host_def path_host_def Let_def split: prod.splits)

lemma bare_host_strategies: "strategies bm bare_host = [None, None, None, None]"
  using bare_host_download [of bm] by (auto simp: strategies_def bare_host_fields)

lemma payload_response:
  "payload_network t (base_url default_client @ ''/findings'')
     = Inr \<lparr>status_code = 200, reason = ''OK'', url = base_url default_client @ ''/findings'',
            body = t\<rparr>"
  by (simp add: payload_network_def)



section \<open>The claims\<close>

subsection \<open>C1: liveness reconciliation\<close>

text \<open>
  C1. With no live handle, a PID file that names a running process of another name must
  not decide \<open>is_running\<close>: control must reach the health probe, and the answer must be
  true exactly when one of the three signals is positive.

  The code returns the verdict of the PID branch instead. On the machine below the
  supervisor holds no handle, the PID file names process 4242, that process runs under the
  name \<open>sudo\<close>, and the backend answers the probe on the port; \<open>is_running\<close> returns false.
  The branch for a PID that names no process at all does fall through to the probe.
\<close>

theorem is_running_skips_probe:
  "process default_server = None
   \<and> read_pid sudo_world = Some 4242
   \<and> psutil_Process sudo_world 4242 = Inr \<lparr>proc_is_running = True, proc_name = Inr ''sudo''\<rparr>
   \<and> health_check (server_client default_server) (http_get sudo_world)
   \<and> is_running default_server sudo_world = Inr False"
proof -
  have "health_check (server_client default_server) (http_get sudo_world)"
    by (simp add: world_fields healthy_8080_default)
  moreover have "is_running default_server sudo_world = Inr False"
    by (simp add: is_running_def handle_alive_default pid_file_check_worlds)
  ultimately show ?thesis
    by (simp add: default_server_process read_pid_worlds world_fields)
qed


subsection \<open>C2: the PID file and the end of the process\<close>

text \<open>
  C2. \<open>stop\<close> removes the PID file only after the supervised process is known to have
  exited; a failed stop leaves the PID file in place.

  With a handle the code does so (the lemma on \<open>stop\<close> with a handle above). Without a
  handle it does not: on the machine below the PID file names the running backend 4242,
  started by an earlier run of the controller; \<open>stop\<close> returns normally, the PID file is
  gone, no signal was sent, and process 4242 still runs.
\<close>

theorem stop_removes_pid_of_live_backend:
  "process default_server = None
   \<and> read_pid detached_world = Some 4242
   \<and> stop any_stop_env default_server detached_world 10
       = (Inr (), default_server, remove_pid detached_world)
   \<and> pid_file (remove_pid detached_world) = Missing
   \<and> filter is_signal (trace (remove_pid detached_world)) = []
   \<and> psutil_Process (remove_pid detached_world) 4242
       = Inr \<lparr>proc_is_running = True, proc_name = Inr ''sense''\<rparr>"
proof -
  have "stop any_stop_env default_server detached_world 10
      = (Inr (), default_server, remove_pid detached_world)"
    by (simp add: stop_def detached_running default_server_process)
  moreover have "pid_file (remove_pid detached_world) = Missing"
    by (simp add: remove_pid_def world_fields emit_def)
  moreover have "filter is_signal (trace (remove_pid detached_world)) = []"
    by (simp add: remove_pid_def world_fields emit_def)
  moreover have "psutil_Process (remove_pid detached_world) 4242
      = Inr \<lparr>proc_is_running = True, proc_name = Inr ''sense''\<rparr>"
    by (simp add: remove_pid_def world_fields emit_def)
  ultimately show ?thesis by (simp add: default_server_process read_pid_worlds)
qed


subsection \<open>C3: failures of the readiness wait\<close>

text \<open>
  C3 as stated: whenever the child exits before the probe ever succeeds, \<open>start\<close> fails with
  the process-died error. This fails when the exit falls between the last round of the loop
  and the end of the timeout: with a timeout of one second and a child that exits 0.7
  seconds in, the rounds at 0 and 0.5 seconds see it running, the loop test at 1 second ends
  the loop, and \<open>start\<close> reports the timeout although the child has exited and no probe ever
  succeeded.
\<close>

theorem start_late_exit_counterexample:
  "tick_poll (last (ticks late_exit_env)) = Some 1
   \<and> list_all (\<lambda>t. \<not> health_check (server_client default_server) (tick_http t))
        (ticks late_exit_env)
   \<and> map_option fst (start late_exit_env default_server idle_world True 1)
       = Some (Inl (ServerError
           ''Failed to start SENSE server: Server failed to become ready within 1 seconds''))"
proof -
  let ?s1 = "default_server\<lparr>binary_manager :=
                 \<lparr>version = ''latest'', binary_path = Some ''/usr/local/bin/sense''\<rparr>,
               process := Some \<lparr>pid = 4242\<rparr>\<rparr>"
  have "wait_for_ready ?s1 1 (start_time late_exit_env) (stderr_text late_exit_env)
          (ticks late_exit_env)
        = Some (Inl (ServerError ''Server failed to become ready within 1 seconds''))"
    by (simp add: late_exit_env_def quiet_tick_def dead_tick_def refused_unhealthy
        str_int_small)
  from start_wait_outcome [OF idle_not_running _ _ this]
  have "map_option fst (start late_exit_env default_server idle_world True 1)
       = Some (Inl (ServerError
           ''Failed to start SENSE server: Server failed to become ready within 1 seconds''))"
    by (auto simp: env_fields default_binary_path)
  moreover have "tick_poll (last (ticks late_exit_env)) = Some 1"
    by (simp add: late_exit_env_def dead_tick_def)
  moreover have "list_all (\<lambda>t. \<not> health_check (server_client default_server) (tick_http t))
        (ticks late_exit_env)"
    by (simp add: late_exit_env_def quiet_tick_def dead_tick_def refused_unhealthy)
  ultimately show ?thesis by simp
qed

text \<open>
  C3 as amended. \<open>start\<close> finds nothing running, resolves the binary and spawns the child;
  the rounds \<open>pre\<close> of the readiness loop are in time, unanswered and show the child running.
  If the next round is in time, unanswered and its \<open>poll()\<close> shows the child exited, \<open>start\<close>
  fails with the process-died error that ends in the text read from the child's standard
  error. If the next loop test finds the timeout \<open>T\<close> used up, \<open>start\<close> fails with the timeout
  error that names \<open>T\<close>. In both cases the supervisor keeps the handle and has sent no
  signal to the child.
\<close>

theorem start_readiness_failure:
  assumes "is_running s w = Inr False"
    and "get_binary_path (binary_manager s) (env_host env) = (Inr binary, bm, out)"
    and "popen_result env = Inr child"
    and "ticks env = pre @ t # rest"
    and "\<forall>q \<in> set pre. clock q - start_time env < of_int T
           \<and> \<not> health_check (server_client s) (tick_http q) \<and> tick_poll q = None"
  shows "(clock t - start_time env < of_int T
            \<and> \<not> health_check (server_client s) (tick_http t) \<and> tick_poll t \<noteq> None
          \<longrightarrow> (\<exists>s' w'. start env s w True T
                  = Some (Inl (ServerError
                         (''Failed to start SENSE server: Server process died unexpectedly: ''
                            @ stderr_text env)), s', w')
                \<and> process s' = Some \<lparr>pid = child\<rparr>
                \<and> filter is_signal (trace w') = filter is_signal (trace w)))
         \<and> (\<not> clock t - start_time env < of_int T
          \<longrightarrow> (\<exists>s' w'. start env s w True T
                  = Some (Inl (ServerError
                         (''Failed to start SENSE server: Server failed to become ready within ''
                            @ str_int T @ '' seconds'')), s', w')
                \<and> process s' = Some \<lparr>pid = child\<rparr>
                \<and> filter is_signal (trace w') = filter is_signal (trace w)))"
proof -
  let ?s1 = "s\<lparr>binary_manager := bm, process := Some \<lparr>pid = child\<rparr>\<rparr>"
  have pre: "\<forall>q \<in> set pre. clock q - start_time env < of_int T
           \<and> \<not> health_check (server_client ?s1) (tick_http q) \<and> tick_poll q = None"
    using assms(5) by (simp add: server_client_spawned)
  have loop: "wait_for_ready ?s1 T (start_time env) (stderr_text env) (ticks env)
      = wait_for_ready ?s1 T (start_time env) (stderr_text env) (t # rest)"
    unfolding assms(4) by (rule wait_for_ready_quiet_prefix [OF pre])
  show ?thesis
  proof (intro conjI impI)
    assume t: "clock t - start_time env < of_int T
            \<and> \<not> health_check (server_client s) (tick_http t) \<and> tick_poll t \<noteq> None"
    then have "wait_for_ready ?s1 T (start_time env) (stderr_text env) (ticks env)
        = Some (Inl (ServerError (''Server process died unexpectedly: '' @ stderr_text env)))"
      unfolding loop by (simp add: server_client_spawned)
    from start_wait_outcome [OF assms(1,2,3) this]
    show "\<exists>s' w'. start env s w True T
                  = Some (Inl (ServerError
                         (''Failed to start SENSE server: Server process died unexpectedly: ''
                            @ stderr_text env)), s', w')
                \<and> process s' = Some \<lparr>pid = child\<rparr>
                \<and> filter is_signal (trace w') = filter is_signal (trace w)"
      by auto
  next
    assume t: "\<not> clock t - start_time env < of_int T"
    then have "wait_for_ready ?s1 T (start_time env) (stderr_text env) (ticks env)
        = Some (Inl (ServerError
             (''Server failed to become ready within '' @ str_int T @ '' seconds'')))"
      unfolding loop by simp
    from start_wait_outcome [OF assms(1,2,3) this]
    show "\<exists>s' w'. start env s w True T
                  = Some (Inl (ServerError
                         (''Failed to start SENSE server: Server failed to become ready within ''
                            @ str_int T @ '' seconds'')), s', w')
                \<and> process s' = Some \<lparr>pid = child\<rparr>
                \<and> filter is_signal (trace w') = filter is_signal (trace w)"
      by auto
  qed
qed

text \<open>
  The two scenarios: a child that exits two seconds into a wait of 30 seconds, and a child
  that runs for a wait of 5 seconds without ever answering.
\<close>

theorem start_readiness_failure_witness:
  "map_option fst (start early_exit_env default_server idle_world True 30)
     = Some (Inl (ServerError
         (''Failed to start SENSE server: Server process died unexpectedly: ''
            @ ''listen tcp :8080: bind: address already in use'')))
   \<and> map_option fst (start silent_env default_server idle_world True 5)
     = Some (Inl (ServerError
         ''Failed to start SENSE server: Server failed to become ready within 5 seconds''))"
proof -
  have died: "map_option fst (start early_exit_env default_server idle_world True 30)
     = Some (Inl (ServerError
         (''Failed to start SENSE server: Server process died unexpectedly: ''
            @ ''listen tcp :8080: bind: address already in use'')))"
    using start_readiness_failure [of default_server idle_world early_exit_env
        "''/usr/local/bin/sense''"
        "\<lparr>version = ''latest'', binary_path = Some ''/usr/local/bin/sense''\<rparr>" "[]" 4242
        "map quiet_tick [0, 1 / 2, 1, 3 / 2]" "dead_tick 2" "[]" 30]
      idle_not_running
    by (auto simp: env_fields default_binary_path early_exit_env_def late_exit_env_def
        quiet_tick_def dead_tick_def refused_unhealthy)
  have slow: "map_option fst (start silent_env default_server idle_world True 5)
     = Some (Inl (ServerError
         ''Failed to start SENSE server: Server failed to become ready within 5 seconds''))"
    using start_readiness_failure [of default_server idle_world silent_env
        "''/usr/local/bin/sense''"
        "\<lparr>version = ''latest'', binary_path = Some ''/usr/local/bin/sense''\<rparr>" "[]" 4242
        "map quiet_tick [0, 1 / 2, 1, 3 / 2, 2, 5 / 2, 3, 7 / 2, 4, 9 / 2]" "quiet_tick 5" "[]" 5]
      idle_not_running
    by (auto simp: env_fields default_binary_path silent_env_def late_exit_env_def
        quiet_tick_def refused_unhealthy str_int_small)
  show ?thesis using died slow by simp
qed


subsection \<open>C4: the PID store\<close>

text \<open>
  C4. After \<open>save(n)\<close>, \<open>read()\<close> returns \<open>n\<close>, for every integer \<open>n\<close>; \<open>read()\<close> returns \<open>None\<close>
  when the PID file is missing and when its text is not an integer (\<open>int\<close> raises
  \<open>ValueError\<close> on it). \<open>read_pid\<close> returns an option: it cannot raise.
\<close>

theorem pid_store_round_trip:
  "read_pid (save_pid n w) = Some n
   \<and> read_pid (w\<lparr>pid_file := Missing\<rparr>) = None
   \<and> (py_int t = None \<longrightarrow> read_pid (w\<lparr>pid_file := Contents t\<rparr>) = None)"
proof -
  have "read_pid (save_pid n w) = py_int (str_int n)"
    by (simp add: read_pid_def save_pid_def emit_def py_int_strip)
  then have "read_pid (save_pid n w) = Some n" by (simp add: py_int_str_int)
  moreover have "read_pid (w\<lparr>pid_file := Missing\<rparr>) = None" by (simp add: read_pid_def)
  ultimately show ?thesis by (simp add: read_pid_contents)
qed

text \<open>
  The PID 4242, a missing file, and the text \<open>abc\<close>.
\<close>

theorem pid_store_round_trip_witness:
  "py_int ''abc'' = None
   \<and> read_pid (save_pid 4242 idle_world) = Some 4242
   \<and> read_pid (idle_world\<lparr>pid_file := Missing\<rparr>) = None
   \<and> read_pid (idle_world\<lparr>pid_file := Contents ''abc''\<rparr>) = None"
  using pid_store_round_trip [of 4242 idle_world "''abc''"] py_int_samples(3) by simp


subsection \<open>C5: idempotent start\<close>

text \<open>
  C5. When the liveness check reports running, \<open>start\<close> spawns nothing, does not raise and
  returns after printing one line; the PID file is untouched. So when a first \<open>start\<close> found
  nothing running and succeeded, and the liveness check reports running at the second
  call, the two calls together have spawned exactly one process.
\<close>

theorem start_idempotent:
  "(is_running s w = Inr True
      \<longrightarrow> (\<exists>w'. start env s w wait T = Some (Inr (), s, w')
             \<and> trace w' = trace w @ [Print (''SENSE server is already running on port ''
                                             @ str_int (port s))]
             \<and> spawned (trace w') = spawned (trace w)
             \<and> pid_file w' = pid_file w))
   \<and> (is_running s0 w0 = Inr False \<and> start env0 s0 w0 wait0 T0 = Some (Inr (), s, w1)
        \<and> trace w = trace w1 \<and> is_running s w = Inr True
      \<longrightarrow> (\<exists>w'. start env s w wait T = Some (Inr (), s, w')
             \<and> spawned (trace w') = spawned (trace w0) + 1))"
proof (intro conjI impI)
  assume "is_running s w = Inr True"
  then show "\<exists>w'. start env s w wait T = Some (Inr (), s, w')
             \<and> trace w' = trace w @ [Print (''SENSE server is already running on port ''
                                             @ str_int (port s))]
             \<and> spawned (trace w') = spawned (trace w)
             \<and> pid_file w' = pid_file w"
    by (simp add: start_running emit_def spawned_append)
next
  assume a: "is_running s0 w0 = Inr False \<and> start env0 s0 w0 wait0 T0 = Some (Inr (), s, w1)
        \<and> trace w = trace w1 \<and> is_running s w = Inr True"
  then have "spawned (trace w1) = spawned (trace w0) + 1"
    using start_fresh_success [of s0 w0 env0 wait0 T0 s w1] by auto
  with a show "\<exists>w'. start env s w wait T = Some (Inr (), s, w')
             \<and> spawned (trace w') = spawned (trace w0) + 1"
    by (simp add: start_running emit_def spawned_append)
qed

text \<open>
  A supervisor that finds the backend of an earlier run; and a first \<open>start\<close> on an idle
  machine followed by a second one once the backend answers.
\<close>

theorem start_idempotent_witness:
  "is_running default_server detached_world = Inr True
   \<and> (\<exists>w'. start ready_env default_server detached_world True 30
              = Some (Inr (), default_server, w')
         \<and> spawned (trace w') = spawned (trace detached_world))
   \<and> (\<exists>s1 w1. is_running default_server idle_world = Inr False
         \<and> start ready_env default_server idle_world True 30 = Some (Inr (), s1, w1)
         \<and> is_running s1 (w1\<lparr>http_get := healthy_8080\<rparr>) = Inr True
         \<and> (\<exists>w'. start ready_env s1 (w1\<lparr>http_get := healthy_8080\<rparr>) True 30
                    = Some (Inr (), s1, w')
               \<and> spawned (trace w') = spawned (trace idle_world) + 1))"
proof -
  have first: "\<exists>w'. start ready_env default_server detached_world True 30
              = Some (Inr (), default_server, w')
         \<and> spawned (trace w') = spawned (trace detached_world)"
    using start_idempotent [of default_server detached_world ready_env True 30] detached_running
    by blast
  obtain s1 w1 where
    st: "start ready_env default_server idle_world True 30 = Some (Inr (), s1, w1)"
    using ready_start by blast
  obtain child where c: "process s1 = Some \<lparr>pid = child\<rparr>" "poll w1 = poll idle_world"
    using start_fresh_success [OF idle_not_running st] by blast
  have run: "is_running s1 (w1\<lparr>http_get := healthy_8080\<rparr>) = Inr True"
    using c by (simp add: is_running_def handle_alive_def idle_world_def)
  have second: "\<exists>w'. start ready_env s1 (w1\<lparr>http_get := healthy_8080\<rparr>) True 30
                    = Some (Inr (), s1, w')
               \<and> spawned (trace w') = spawned (trace idle_world) + 1"
    using start_idempotent [of s1 "w1\<lparr>http_get := healthy_8080\<rparr>" ready_env True 30
        default_server idle_world ready_env True 30 w1] idle_not_running st run
    by simp
  show ?thesis using first detached_running idle_not_running st run second by blast
qed


subsection \<open>C6: stop on a supervisor that was never started\<close>

text \<open>
  C6. On a supervisor that was never started (no handle, no PID-file record of a live
  matching process, no healthy backend) \<open>stop\<close> changes nothing and does not raise.

  The code does so while the PID file holds no negative number (the lemma on \<open>stop\<close> on a
  supervisor never started, above). With the text \<open>-5\<close> in the PID file it does not: the
  supervisor holds no handle, no process is known under any pid, nothing answers the probe,
  and \<open>stop\<close> ends with the \<open>ValueError\<close> that \<open>psutil.Process\<close> raises for a negative pid.
  \<open>is_running\<close> catches the two exceptions of a stale PID and \<open>_read_pid\<close> catches the
  \<open>ValueError\<close> of a garbled text; this third case of a bad PID file is caught nowhere.
\<close>

theorem stop_raises_on_negative_pid:
  "process default_server = None
   \<and> read_pid negative_pid_world = Some (- 5)
   \<and> (\<forall>p. psutil_Process negative_pid_world p = Inl NoSuchProcess)
   \<and> \<not> health_check (server_client default_server) (http_get negative_pid_world)
   \<and> stop any_stop_env default_server negative_pid_world 10
       = (Inl (Builtin ''ValueError'' ''pid must be a positive integer (got -5)''),
          default_server, negative_pid_world)"
proof -
  have "is_running default_server negative_pid_world
          = Inl (Builtin ''ValueError'' ''pid must be a positive integer (got -5)'')"
    by (simp add: is_running_def handle_alive_default pid_file_check_worlds)
  then have "stop any_stop_env default_server negative_pid_world 10
       = (Inl (Builtin ''ValueError'' ''pid must be a positive integer (got -5)''),
          default_server, negative_pid_world)"
    by (simp add: stop_def)
  then show ?thesis
    by (simp add: default_server_process read_pid_worlds world_fields refused_unhealthy)
qed


subsection \<open>C7: platform normalization\<close>

text \<open>
  C7. \<open>get_platform_info\<close> is a total function of the two strings the operating system
  reports. The system name comes back lower-cased (\<open>Darwin\<close>, \<open>Linux\<close> and \<open>Windows\<close> become
  \<open>darwin\<close>, \<open>linux\<close> and \<open>windows\<close>); the machine name, lower-cased, maps \<open>x86_64\<close> and
  \<open>amd64\<close> to \<open>amd64\<close>, \<open>arm64\<close> and \<open>aarch64\<close> to \<open>arm64\<close>, and anything else to itself.
  The pairs of the documentation and of the tests are stated one by one, an unrecognised
  pair with them. Lower-casing is stated by code points, apart from the table that defines
  it: the capital letters move up by 32 and every other character stays.
\<close>

theorem get_platform_info_normalizes:
  "get_platform_info system_name machine_name =
     (lower system_name,
      if lower machine_name = ''x86_64'' \<or> lower machine_name = ''amd64'' then ''amd64''
      else if lower machine_name = ''arm64'' \<or> lower machine_name = ''aarch64'' then ''arm64''
      else lower machine_name)
   \<and> get_platform_info ''Darwin'' ''arm64'' = (''darwin'', ''arm64'')
   \<and> get_platform_info ''Darwin'' ''x86_64'' = (''darwin'', ''amd64'')
   \<and> get_platform_info ''Linux'' ''x86_64'' = (''linux'', ''amd64'')
   \<and> get_platform_info ''Linux'' ''aarch64'' = (''linux'', ''arm64'')
   \<and> get_platform_info ''Windows'' ''AMD64'' = (''windows'', ''amd64'')
   \<and> get_platform_info ''FreeBSD'' ''riscv64'' = (''freebsd'', ''riscv64'')
   \<and> map (of_char :: char \<Rightarrow> nat) (lower name)
       = map (\<lambda>c. if (65 \<le> (of_char c :: nat) \<and> (of_char c :: nat) \<le> 90)
                      \<or> (192 \<le> (of_char c :: nat) \<and> (of_char c :: nat) \<le> 222
                          \<and> (of_char c :: nat) \<noteq> 215)
                   then of_char c + 32 else of_char c) name"
proof -
  have general: "\<And>a b. get_platform_info a b =
     (lower a,
      if lower b = ''x86_64'' \<or> lower b = ''amd64'' then ''amd64''
      else if lower b = ''arm64'' \<or> lower b = ''aarch64'' then ''arm64''
      else lower b)"
    by (auto simp: get_platform_info_def dict_get_def Let_def)
  have codes: "map (of_char :: char \<Rightarrow> nat) (lower name)
       = map (\<lambda>c. if (65 \<le> (of_char c :: nat) \<and> (of_char c :: nat) \<le> 90)
                      \<or> (192 \<le> (of_char c :: nat) \<and> (of_char c :: nat) \<le> 222
                          \<and> (of_char c :: nat) \<noteq> 215)
                   then of_char c + 32 else of_char c) name"
    by (simp add: lower_def lower_char_code)
  have inst:
    "get_platform_info ''Darwin'' ''arm64'' = (''darwin'', ''arm64'')"
    "get_platform_info ''Darwin'' ''x86_64'' = (''darwin'', ''amd64'')"
    "get_platform_info ''Linux'' ''x86_64'' = (''linux'', ''amd64'')"
    "get_platform_info ''Linux'' ''aarch64'' = (''linux'', ''arm64'')"
    "get_platform_info ''Windows'' ''AMD64'' = (''windows'', ''amd64'')"
    "get_platform_info ''FreeBSD'' ''riscv64'' = (''freebsd'', ''riscv64'')"
    by (simp_all add: general lower_samples)
  show ?thesis by (intro conjI general inst codes)
qed


subsection \<open>C8: the order of the resolution strategies\<close>

text \<open>
  C8 as stated: \<open>get_binary_path\<close> returns the result of the first of the four strategies
  that succeeds, and raises \<open>BinaryNotFoundError\<close> exactly when all four have failed. Two
  machines on which this fails. On the first the manager remembers the copy in the cache
  from an earlier call, and the copy still exists; meanwhile \<open>sense\<close> has appeared on the
  search path, so the first strategy would succeed with another path; the call returns the
  remembered one. On the second nothing is remembered and the copy in the cache is all
  there is, so the third strategy finds it; its mode cannot be set, and the call ends with
  the \<open>OSError\<close> of \<open>os.chmod\<close>: no path, and no \<open>BinaryNotFoundError\<close> either.
\<close>

theorem get_binary_path_counterexample:
  "find_in_path cached_host = Some ''/usr/local/bin/sense''
   \<and> fst (get_binary_path cached_manager cached_host) = Inr ''/home/user/.cache/senseai/sense''
   \<and> strategies (binary_manager default_server) locked_cache_host ! 2
       = Some ''/home/user/.cache/senseai/sense''
   \<and> fst (get_binary_path (binary_manager default_server) locked_cache_host)
       = Inl (Builtin ''OSError'' ''[Errno 1] Operation not permitted'')"
proof -
  have "fst (get_binary_path cached_manager cached_host) = Inr ''/home/user/.cache/senseai/sense''"
    by (simp add: get_binary_path_def cached_manager_def cached_host_def)
  moreover have "strategies (binary_manager default_server) locked_cache_host ! 2
       = Some ''/home/user/.cache/senseai/sense''"
    by (simp add: strategies_def locked_cache_fields path_join_def BINARY_NAME_def)
  moreover have "fst (get_binary_path (binary_manager default_server) locked_cache_host)
       = Inl (Builtin ''OSError'' ''[Errno 1] Operation not permitted'')"
    by (simp add: get_binary_path_def find_in_path_hosts locked_cache_fields path_join_def
        BINARY_NAME_def default_server_def new_SenseServer_def)
  ultimately show ?thesis using find_in_path_hosts(2) by simp
qed

text \<open>
  C8 as amended. A remembered path that still exists is returned before any strategy is
  tried. Otherwise, provided that when the search path and the development tree have failed
  the cache directory can be created and a copy found there can be made executable,
  \<open>get_binary_path\<close> returns a path exactly when that path is the result of the first
  strategy that succeeds, in the order search path, development tree, cache, download; and
  it raises \<open>BinaryNotFoundError\<close> exactly when all four strategies have failed.
\<close>

theorem get_binary_path_first_success:
  "(\<forall>p. binary_path bm = Some p \<and> path_exists h p \<longrightarrow> get_binary_path bm h = (Inr p, bm, []))
   \<and> ((\<forall>p. binary_path bm = Some p \<longrightarrow> \<not> path_exists h p)
        \<and> (find_in_path h = None \<and> \<not> path_exists h (path_join (project_root h) ''sense'')
             \<longrightarrow> (\<exists>d. cache_dir_result h = Inr d
                     \<and> (path_exists h (path_join d BINARY_NAME)
                          \<longrightarrow> make_executable h (path_join d BINARY_NAME) = None)))
      \<longrightarrow> (\<forall>p. (fst (get_binary_path bm h) = Inr p)
                  = (List.find (\<lambda>r. r \<noteq> None) (strategies bm h) = Some (Some p)))
          \<and> ((\<exists>m. fst (get_binary_path bm h) = Inl (BinaryNotFoundError m))
                = (\<forall>r \<in> set (strategies bm h). r = None)))"
proof (intro conjI allI impI)
  fix p
  assume "binary_path bm = Some p \<and> path_exists h p"
  then show "get_binary_path bm h = (Inr p, bm, [])"
    by (simp add: get_binary_path_def)
next
  fix p
  assume a: "(\<forall>p. binary_path bm = Some p \<longrightarrow> \<not> path_exists h p)
        \<and> (find_in_path h = None \<and> \<not> path_exists h (path_join (project_root h) ''sense'')
             \<longrightarrow> (\<exists>d. cache_dir_result h = Inr d
                     \<and> (path_exists h (path_join d BINARY_NAME)
                          \<longrightarrow> make_executable h (path_join d BINARY_NAME) = None)))"
  then have memo: "(case binary_path bm of None \<Rightarrow> None
               | Some p \<Rightarrow> if path_exists h p then Some p else None) = None"
    by (cases "binary_path bm") auto
  from a show "(fst (get_binary_path bm h) = Inr p)
                  = (List.find (\<lambda>r. r \<noteq> None) (strategies bm h) = Some (Some p))"
    unfolding get_binary_path_def memo strategies_def
    by (auto simp: Let_def split: option.splits sum.splits prod.splits)
next
  assume a: "(\<forall>p. binary_path bm = Some p \<longrightarrow> \<not> path_exists h p)
        \<and> (find_in_path h = None \<and> \<not> path_exists h (path_join (project_root h) ''sense'')
             \<longrightarrow> (\<exists>d. cache_dir_result h = Inr d
                     \<and> (path_exists h (path_join d BINARY_NAME)
                          \<longrightarrow> make_executable h (path_join d BINARY_NAME) = None)))"
  then have memo: "(case binary_path bm of None \<Rightarrow> None
               | Some p \<Rightarrow> if path_exists h p then Some p else None) = None"
    by (cases "binary_path bm") auto
  from a show "(\<exists>m. fst (get_binary_path bm h) = Inl (BinaryNotFoundError m))
                = (\<forall>r \<in> set (strategies bm h). r = None)"
    unfolding get_binary_path_def memo strategies_def
    by (auto simp: Let_def split: option.splits sum.splits prod.splits)
qed

text \<open>
  A manager that remembers the copy in the cache; a fresh manager on a machine with
  \<open>sense\<close> on the search path and in the cache; a fresh manager on a machine with nothing.
\<close>

theorem get_binary_path_first_success_witness:
  "get_binary_path cached_manager cached_host
     = (Inr ''/home/user/.cache/senseai/sense'', cached_manager, [])
   \<and> List.find (\<lambda>r. r \<noteq> None) (strategies (binary_manager default_server) cached_host)
       = Some (Some ''/usr/local/bin/sense'')
   \<and> fst (get_binary_path (binary_manager default_server) cached_host)
       = Inr ''/usr/local/bin/sense''
   \<and> strategies (binary_manager default_server) bare_host = [None, None, None, None]
   \<and> (\<exists>m. fst (get_binary_path (binary_manager default_server) bare_host)
             = Inl (BinaryNotFoundError m))"
proof -
  have b: "binary_path (binary_manager default_server) = None"
    by (simp add: default_server_def new_SenseServer_def)
  have m: "binary_path cached_manager = Some ''/home/user/.cache/senseai/sense''"
    "path_exists cached_host ''/home/user/.cache/senseai/sense''"
    by (simp_all add: cached_manager_def cached_host_def)
  have f: "List.find (\<lambda>r. r \<noteq> None) (strategies (binary_manager default_server) cached_host)
       = Some (Some ''/usr/local/bin/sense'')"
    by (simp add: strategies_def find_in_path_hosts)
  have one: "get_binary_path cached_manager cached_host
     = (Inr ''/home/user/.cache/senseai/sense'', cached_manager, [])"
    using get_binary_path_first_success [of cached_manager cached_host] m by blast
  have two: "fst (get_binary_path (binary_manager default_server) cached_host)
       = Inr ''/usr/local/bin/sense''"
    using get_binary_path_first_success [of "binary_manager default_server" cached_host] b f
    by (simp add: find_in_path_hosts)
  have three: "\<exists>m. fst (get_binary_path (binary_manager default_server) bare_host)
             = Inl (BinaryNotFoundError m)"
    using get_binary_path_first_success [of "binary_manager default_server" bare_host] b
    by (simp add: bare_host_strategies bare_host_fields)
  show ?thesis using one f two three bare_host_strategies by simp
qed


subsection \<open>C9: malformed answers of the results endpoint\<close>

text \<open>
  C9 as stated: a success status with a payload that is not JSON, or is JSON but not an
  array, makes \<open>get_findings\<close> fail with a malformed-response error. Two payloads on which
  this fails. For \<open>{}\<close>, an empty JSON object, \<open>get_findings\<close> returns the empty list. For
  one hundred thousand opening brackets, which is not JSON, the decoder raises
  \<open>RecursionError\<close>, neither handler catches it, and \<open>get_findings\<close> ends with that
  exception, not with \<open>APIError\<close>.
\<close>

theorem get_findings_counterexample:
  "sample_response_json ''{}'' = Inr (JObject [])
   \<and> get_findings sample_response_json default_client (payload_network ''{}'') None = Inr []
   \<and> sample_response_json deep_text
       = Inl (DecoderRaised ''RecursionError''
               ''maximum recursion depth exceeded while decoding a JSON array from a unicode string'')
   \<and> get_findings sample_response_json default_client (payload_network deep_text) None
       = Inl (Builtin ''RecursionError''
               ''maximum recursion depth exceeded while decoding a JSON array from a unicode string'')"
  by (simp add: get_findings_def payload_response raise_for_status_def sample_response_json_def
      decode_sample_values)

text \<open>
  C9 as amended. The results endpoint answers with a status outside 400 to 599. If the
  decoder reports a decode error on the payload, \<open>get_findings\<close> fails with the
  malformed-response error of this package, an \<open>APIError\<close> whose message is
  \<open>Failed to fetch findings:\<close> or \<open>Failed to parse API response:\<close> (by the class of the decode
  error) followed by the decoder's text. If the payload is valid JSON of another shape than
  an array, \<open>get_findings\<close> does not fail and returns the empty list. If it is an array,
  \<open>get_findings\<close> without a limit returns its elements.
\<close>

theorem get_findings_success_status:
  assumes "net (base_url c @ ''/findings'') = Inr r"
    and "raise_for_status r = None"
  shows "(\<forall>m. response_json (body r) = Inl (RequestsJSONDecodeError m)
            \<longrightarrow> get_findings response_json c net limit
                  = Inl (APIError (''Failed to fetch findings: '' @ m)))
         \<and> (\<forall>m. response_json (body r) = Inl (JSONDecodeError m)
              \<longrightarrow> get_findings response_json c net limit
                    = Inl (APIError (''Failed to parse API response: '' @ m)))
         \<and> (\<forall>v. response_json (body r) = Inr v \<and> (\<forall>xs. v \<noteq> JArray xs)
              \<longrightarrow> get_findings response_json c net limit = Inr [])
         \<and> (\<forall>xs. response_json (body r) = Inr (JArray xs)
              \<longrightarrow> get_findings response_json c net None = Inr xs)"
  using assms by (auto simp: get_findings_def split: json.splits)

text \<open>
  The payloads \<open><html>\<close> (with the decode error of either class), \<open>{}\<close> and \<open>[1]\<close>.
\<close>

theorem get_findings_success_status_witness:
  "get_findings sample_response_json default_client (payload_network ''<html>'') None
     = Inl (APIError ''Failed to fetch findings: Expecting value: line 1 column 1 (char 0)'')
   \<and> get_findings sample_json_loads default_client (payload_network ''<html>'') None
     = Inl (APIError ''Failed to parse API response: Expecting value: line 1 column 1 (char 0)'')
   \<and> get_findings sample_response_json default_client (payload_network ''{}'') (Some 2) = Inr []
   \<and> get_findings sample_response_json default_client (payload_network ''[1]'') None
     = Inr [JInt 1]"
proof -
  have ok: "\<And>t. raise_for_status \<lparr>status_code = 200, reason = ''OK'',
              url = base_url default_client @ ''/findings'', body = t\<rparr> = None"
    by (simp add: raise_for_status_def)
  have a: "get_findings sample_response_json default_client (payload_network ''<html>'') None
     = Inl (APIError ''Failed to fetch findings: Expecting value: line 1 column 1 (char 0)'')"
    using get_findings_success_status [where net = "payload_network ''<html>''"
        and c = default_client and response_json = sample_response_json and limit = None
        and r = "\<lparr>status_code = 200, reason = ''OK'',
                  url = base_url default_client @ ''/findings'', body = ''<html>''\<rparr>"]
      payload_response [of "''<html>''"] ok [of "''<html>''"]
    by (simp add: sample_response_json_def decode_sample_values)
  have b: "get_findings sample_json_loads default_client (payload_network ''<html>'') None
     = Inl (APIError ''Failed to parse API response: Expecting value: line 1 column 1 (char 0)'')"
    using get_findings_success_status [where net = "payload_network ''<html>''"
        and c = default_client and response_json = sample_json_loads and limit = None
        and r = "\<lparr>status_code = 200, reason = ''OK'',
                  url = base_url default_client @ ''/findings'', body = ''<html>''\<rparr>"]
      payload_response [of "''<html>''"] ok [of "''<html>''"]
    by (simp add: sample_json_loads_def decode_sample_values)
  have c: "get_findings sample_response_json default_client (payload_network ''{}'') (Some 2)
     = Inr []"
    using get_findings_success_status [where net = "payload_network ''{}''"
        and c = default_client and response_json = sample_response_json and limit = "Some 2"
        and r = "\<lparr>status_code = 200, reason = ''OK'',
                  url = base_url default_client @ ''/findings'', body = ''{}''\<rparr>"]
      payload_response [of "''{}''"] ok [of "''{}''"]
    by (simp add: sample_response_json_def decode_sample_values)
  have d: "get_findings sample_response_json default_client (payload_network ''[1]'') None
     = Inr [JInt 1]"
    using get_findings_success_status [where net = "payload_network ''[1]''"
        and c = default_client and response_json = sample_response_json and limit = None
        and r = "\<lparr>status_code = 200, reason = ''OK'',
                  url = base_url default_client @ ''/findings'', body = ''[1]''\<rparr>"]
      payload_response [of "''[1]''"] ok [of "''[1]''"]
    by (simp add: sample_response_json_def decode_sample_values)
  show ?thesis using a b c d by simp
qed


subsection \<open>C10: the events a stream yields\<close>

text \<open>
  C10. \<open>stream_findings\<close> yields exactly the \<open>finding\<close> events whose data parses as JSON,
  in stream order; \<open>connected\<close> events and \<open>finding\<close> events with invalid JSON are skipped
  without raising and without ending the stream.

  The code does so while the decoder raises nothing but \<open>JSONDecodeError\<close> (the lemma on the
  values \<open>stream_findings\<close> yields, above). It does not when the decoder raises an exception
  of another class: \<open>except json.JSONDecodeError\<close>, under the comment that malformed events
  are skipped, does not catch it. Below, the stream delivers a \<open>connected\<close> event, a
  \<open>finding\<close> with the payload \<open>{}\<close>, a \<open>finding\<close> whose payload is one hundred thousand
  opening brackets, and a \<open>finding\<close> with the payload \<open>[1]\<close>: the generator yields the first
  finding, ends with \<open>RecursionError\<close>, and never yields the last.
\<close>

theorem stream_findings_ends_on_decoder_error:
  "sample_json_loads deep_text
     = Inl (DecoderRaised ''RecursionError''
             ''maximum recursion depth exceeded while decoding a JSON array from a unicode string'')
   \<and> sample_json_loads ''[1]'' = Inr (JArray [JInt 1])
   \<and> stream_findings sample_json_loads default_client (events_stream deep_events)
       = ([JObject []],
          Some (Builtin ''RecursionError''
                 ''maximum recursion depth exceeded while decoding a JSON array from a unicode string''))"
  by (simp add: stream_findings_def events_stream_def deep_events_def raise_for_status_def
      sample_json_loads_def decode_sample_values)

end
